theory Spec2Isabelle
  imports Main "HOL-Library.Word"
begin

unbundle bit_operations_syntax

section \<open>Cipherpack: encryptThenSign_RSA1 and checkSignThenDecrypt_RSA1\<close>

text \<open>
  A shallow embedding of \<^verbatim>\<open>src/elevator/Crypto1.cpp\<close>. The two operations are glue
  around the Botan library (RSA, AEAD, RNG, OID registry, ASN.1), the standard file
  streams and the repository's \<^verbatim>\<open>IOUtil\<close>. The model keeps the control flow of the
  source: every \<^verbatim>\<open>return false\<close>, every call that can throw and the two levels of
  \<^verbatim>\<open>catch\<close> are branches. The Botan primitives are parameters (a record of
  functions), the compile-time constants of class \<^verbatim>\<open>Cipherpack\<close> are a record, and
  the file system is explicit state.
\<close>

subsection \<open>Bytes, strings and the file system\<close>

type_synonym byte = "8 word"
type_synonym bytes = "byte list"

text \<open>\<^verbatim>\<open>std::string\<close> is a sequence of one-byte characters; the source converts between
  strings and \<^verbatim>\<open>std::vector<uint8_t>\<close> byte by byte, which is the identity here.\<close>

type_synonym cstring = "byte list"

text \<open>A \<^verbatim>\<open>Botan::OID\<close> is its list of components; the empty OID is the empty list.\<close>

type_synonym OID = "nat list"

text \<open>
  The file system and the stream buffers of the C++ runtime: the content of every
  existing path, which paths an output stream can be opened on, the size a file cannot
  outgrow, the size of the buffer of an output stream, and, for the output stream that is
  open on a path, the bytes it has accepted and not yet written to the file.
\<close>

record filesys =
  files :: "cstring \<rightharpoonup> bytes"
  creatable :: "cstring \<Rightarrow> bool"
  capacity :: nat
  stream_buffer :: nat
  unflushed :: "cstring \<Rightarrow> bytes"

text \<open>Modelled from the spec: \<^verbatim>\<open>IOUtil::file_exists\<close> and \<^verbatim>\<open>IOUtil::remove\<close>, whose
  sources are not part of the given files. Removal deletes the path and reports whether a
  file was deleted.\<close>

definition file_exists :: "filesys \<Rightarrow> cstring \<Rightarrow> bool" where
  "file_exists fs p = (files fs p \<noteq> None)"

definition remove_file :: "filesys \<Rightarrow> cstring \<Rightarrow> bool \<times> filesys" where
  "remove_file fs p =
     (if files fs p \<noteq> None then (True, fs\<lparr>files := (files fs)(p := None)\<rparr>)
      else (False, fs))"

text \<open>
  \<^verbatim>\<open>std::ofstream\<close>: the path it was opened on and its fail state. Opening creates or
  truncates the file, with an empty buffer. The stream is buffered: a write that fits
  the buffer only fills it, and the stream stays good whatever room the file system has.
  A write that does not fit writes the buffer and the new bytes to the file; the file
  takes what the capacity leaves room for, and the stream fails when that is not all. A
  stream in the fail state ignores writes. \<^verbatim>\<open>tellp\<close> (lines 149, 180, 485) reads the
  position and changes nothing. The destructor writes what is still in the buffer, as far
  as there is room, and nobody sees whether that succeeded. Bytes written after the path
  was removed go to the removed file.
\<close>

record ofstream =
  os_path :: cstring
  os_fail :: bool

definition ofstream_open :: "filesys \<Rightarrow> cstring \<Rightarrow> ofstream \<times> filesys" where
  "ofstream_open fs p =
     (if creatable fs p
      then (\<lparr>os_path = p, os_fail = False\<rparr>,
            fs\<lparr>files := (files fs)(p \<mapsto> []), unflushed := (unflushed fs)(p := [])\<rparr>)
      else (\<lparr>os_path = p, os_fail = True\<rparr>, fs))"

text \<open>The bytes \<open>data\<close> leave the buffer of the stream on \<open>p\<close> for the file; the result
  says whether the file took all of them.\<close>

definition ofstream_flush :: "filesys \<Rightarrow> cstring \<Rightarrow> bytes \<Rightarrow> bool \<times> filesys" where
  "ofstream_flush fs p data =
     (case files fs p of
        None \<Rightarrow> (True, fs\<lparr>unflushed := (unflushed fs)(p := [])\<rparr>)
      | Some cur \<Rightarrow>
          (length cur + length data \<le> capacity fs,
           fs\<lparr>files := (files fs)(p \<mapsto> cur @ take (capacity fs - length cur) data),
              unflushed := (unflushed fs)(p := [])\<rparr>))"

definition ofstream_write :: "ofstream \<Rightarrow> filesys \<Rightarrow> bytes \<Rightarrow> ofstream \<times> filesys" where
  "ofstream_write os fs data =
     (if os_fail os then (os, fs)
      else let pending = unflushed fs (os_path os) @ data
           in if length pending \<le> stream_buffer fs
              then (os, fs\<lparr>unflushed := (unflushed fs)(os_path os := pending)\<rparr>)
              else let (complete, fs') = ofstream_flush fs (os_path os) pending
                   in (os\<lparr>os_fail := \<not> complete\<rparr>, fs'))"

definition ofstream_close :: "filesys \<Rightarrow> cstring \<Rightarrow> filesys" where
  "ofstream_close fs p = snd (ofstream_flush fs p (unflushed fs p))"

subsection \<open>Exceptions and error returns\<close>

text \<open>The Botan exceptions the code distinguishes: \<^verbatim>\<open>Decoding_Error\<close> (with its
  subclasses) is caught by the inner handlers of decrypt, everything else only by the
  outer \<^verbatim>\<open>catch (std::exception &)\<close>.\<close>

datatype botan_exception =
    Decoding_Error
  | Invalid_Authentication_Tag
  | Stream_IO_Error
  | Lookup_Error
  | Invalid_Argument
  | Internal_Error

text \<open>One constructor for each place where the source returns \<^verbatim>\<open>false\<close>, named after
  the message it prints there.\<close>

datatype error =
    Failed_deletion_of_existing_output_file
  | Not_overwriting_existing_output_file
  | Output_file_not_open
  | Key_not_loaded
  | AEAD_algo_not_available
  | No_OID_defined_for_cipher_algo
  | Output_file_write_failed
  | Caught_exception botan_exception
  | Unknown_package_magic
  | Expected_package_magic
  | Expected_header1_size_element_of_4_bytes
  | Header1a_invalid_input_file_format
  | Expected_header1_size
  | Signature_mismatch
  | Invalid_input_file_format
  | Unknown_filename
  | Unknown_signing_algo
  | Expected_signing_algo
  | Expected_padding_algo
  | Unknown_hash_function
  | Expected_hash_function
  | Unknown_hash_function_parameter
  | Unknown_cipher_algo
  | Expected_cipher_algo

text \<open>
  The state of a run inside the \<^verbatim>\<open>try\<close> block: it goes on with a value, it has
  returned \<^verbatim>\<open>false\<close> (with the file system as it is then), or an exception is
  in flight.
\<close>

datatype 'a step =
    Next 'a
  | Return error filesys
  | Throw botan_exception filesys

definition and_then :: "'a step \<Rightarrow> ('a \<Rightarrow> 'b step) \<Rightarrow> 'b step" where
  "and_then m f = (case m of Next x \<Rightarrow> f x | Return e fs \<Rightarrow> Return e fs | Throw x fs \<Rightarrow> Throw x fs)"

text \<open>A library call that may throw, made while the file system is \<open>fs\<close>.\<close>

definition call :: "filesys \<Rightarrow> botan_exception + 'a \<Rightarrow> 'a step" where
  "call fs r = (case r of Inl x \<Rightarrow> Throw x fs | Inr v \<Rightarrow> Next v)"

text \<open>The error paths that end with \<^verbatim>\<open>IOUtil::remove(outfilename); return false;\<close>.\<close>

definition remove_and_return :: "error \<Rightarrow> filesys \<Rightarrow> cstring \<Rightarrow> 'a step" where
  "remove_and_return e fs outfilename = Return e (snd (remove_file fs outfilename))"

text \<open>The outer handler, \<^verbatim>\<open>catch (std::exception &e)\<close>: remove the output, return
  \<^verbatim>\<open>false\<close>. Falling out of the \<^verbatim>\<open>try\<close> block returns \<^verbatim>\<open>true\<close>.\<close>

definition catch_all :: "cstring \<Rightarrow> ('a \<times> filesys) step \<Rightarrow> (error + 'a) \<times> filesys" where
  "catch_all outfilename m =
     (case m of
        Next (v, fs) \<Rightarrow> (Inr v, fs)
      | Return e fs \<Rightarrow> (Inl e, fs)
      | Throw x fs \<Rightarrow> (Inl (Caught_exception x), snd (remove_file fs outfilename)))"

text \<open>The inner handlers of decrypt, \<^verbatim>\<open>catch (Botan::Decoding_Error &e)\<close>: remove the
  output and return \<^verbatim>\<open>false\<close>; any other exception passes through.\<close>

definition catch_decoding_error :: "error \<Rightarrow> cstring \<Rightarrow> 'a step \<Rightarrow> 'a step" where
  "catch_decoding_error e outfilename m =
     (case m of
        Throw x fs \<Rightarrow> (if x = Decoding_Error then remove_and_return e fs outfilename else Throw x fs)
      | _ \<Rightarrow> m)"

subsection \<open>The header and the library\<close>

record algorithm_identifier =
  oid :: OID
  parameters :: bytes

text \<open>The ten elements of the Header-1 SEQUENCE, in the order the source encodes them.\<close>

record header1 =
  h_package_magic :: bytes
  h_header1_size_buffer :: bytes
  h_filename :: bytes
  h_payload_version :: "64 word"
  h_payload_version_parent :: "64 word"
  h_sign_algo :: bytes
  h_pk_alg_id :: algorithm_identifier
  h_cipher_algo_oid :: OID
  h_encrypted_key :: bytes
  h_nonce :: bytes

text \<open>The compile-time constants of class \<^verbatim>\<open>Cipherpack\<close>; their declarations are in a
  header that is not part of the given files, so they are parameters.\<close>

record config =
  package_magic :: cstring
  aead_cipher_algo :: cstring
  ChaCha_Nonce_Size :: nat
  rsa_padding_algo :: cstring
  rsa_hash_algo :: cstring
  rsa_sign_algo :: cstring
  buffer_size :: nat

text \<open>
  The Botan calls of the source, as parameters. \<open>'pk\<close> and \<open>'sk\<close> are public and
  private key objects, \<open>'aead\<close> is an \<^verbatim>\<open>AEAD_Mode\<close> object with its state, \<open>'rng\<close>
  the state of the system random number generator. A call that can throw returns a sum.

  \<^item> \<open>x509_load_key\<close>, \<open>pkcs8_load_key\<close>: parse a key file (the second with the passphrase).
  \<^item> \<open>aead_create\<close>: \<^verbatim>\<open>AEAD_Mode::create(name, direction)\<close>, \<open>None\<close> for the null
    pointer; the direction is \<open>True\<close> for \<^verbatim>\<open>DECRYPTION\<close>.
  \<^item> \<open>pk_encrypt\<close>: \<^verbatim>\<open>PK_Encryptor_EME(key, rng, eme).encrypt(msg, rng)\<close>.
  \<^item> \<open>pk_decrypt\<close>: the unwrap inside \<^verbatim>\<open>PK_Decryptor_EME\<close>; \<open>Inr None\<close> is a
    ciphertext that does not unwrap.
  \<^item> \<open>pk_sign\<close>, \<open>pk_verify\<close>: \<^verbatim>\<open>PK_Signer::sign_message\<close> and
    \<^verbatim>\<open>PK_Verifier::update\<close> followed by \<^verbatim>\<open>check_signature\<close>.
  \<^item> \<open>der_header1\<close>, \<open>ber_header1\<close>: the \<^verbatim>\<open>DER_Encoder\<close> and \<^verbatim>\<open>BER_Decoder\<close>
    chains over the ten elements of Header-1; \<open>ber_header1_snoop\<close> the chain that
    decodes only the first two elements from the stream.
  \<^item> \<open>der_header2\<close>, \<open>ber_header2\<close>: the chains for Header-2; decoding returns the
    signature and the rest of the stream.
\<close>

record ('pk, 'sk, 'aead, 'rng) botan =
  x509_load_key :: "bytes \<Rightarrow> 'pk option"
  pkcs8_load_key :: "bytes \<Rightarrow> cstring \<Rightarrow> 'sk option"
  random_vec :: "'rng \<Rightarrow> nat \<Rightarrow> bytes \<times> 'rng"
  aead_create :: "cstring \<Rightarrow> bool \<Rightarrow> 'aead option"
  maximum_keylength :: "'aead \<Rightarrow> nat"
  aead_set_key :: "'aead \<Rightarrow> bytes \<Rightarrow> botan_exception + 'aead"
  aead_set_associated_data :: "'aead \<Rightarrow> bytes \<Rightarrow> botan_exception + 'aead"
  aead_start :: "'aead \<Rightarrow> bytes \<Rightarrow> botan_exception + 'aead"
  aead_update :: "'aead \<Rightarrow> bytes \<Rightarrow> botan_exception + ('aead \<times> bytes)"
  aead_finish :: "'aead \<Rightarrow> bytes \<Rightarrow> botan_exception + bytes"
  oid_from_string :: "cstring \<Rightarrow> botan_exception + OID"
  oid2str_or_empty :: "OID \<Rightarrow> cstring"
  pk_encrypt :: "'pk \<Rightarrow> cstring \<Rightarrow> bytes \<Rightarrow> 'rng \<Rightarrow> botan_exception + (bytes \<times> 'rng)"
  pk_decrypt :: "'sk \<Rightarrow> cstring \<Rightarrow> bytes \<Rightarrow> botan_exception + bytes option"
  pk_sign :: "'sk \<Rightarrow> cstring \<Rightarrow> bytes \<Rightarrow> 'rng \<Rightarrow> botan_exception + (bytes \<times> 'rng)"
  pk_verify :: "'pk \<Rightarrow> cstring \<Rightarrow> bytes \<Rightarrow> bytes \<Rightarrow> botan_exception + bool"
  der_header1 :: "header1 \<Rightarrow> bytes"
  ber_header1 :: "bytes \<Rightarrow> botan_exception + header1"
  ber_header1_snoop :: "bytes \<Rightarrow> botan_exception + (bytes \<times> bytes)"
  der_header2 :: "bytes \<Rightarrow> bytes"
  ber_header2 :: "bytes \<Rightarrow> botan_exception + (bytes \<times> bytes)"
  ber_encode_algid :: "algorithm_identifier \<Rightarrow> bytes"
  ber_decode_algid :: "bytes \<Rightarrow> botan_exception + algorithm_identifier"

subsection \<open>Helpers outside the two operations\<close>

text \<open>Modelled from the spec: \<^verbatim>\<open>jau::put_uint32\<close> and \<^verbatim>\<open>jau::get_uint32\<close> at
  offset 0 with \<^verbatim>\<open>littleEndian = true\<close>, which are not part of the given files: the
  size is carried as 32 bits, little-endian, in four bytes. The source reads only buffers
  it has checked to hold four bytes.\<close>

definition put_uint32 :: "32 word \<Rightarrow> bytes" where
  "put_uint32 v = [ucast v, ucast (drop_bit 8 v), ucast (drop_bit 16 v), ucast (drop_bit 24 v)]"

definition get_uint32 :: "bytes \<Rightarrow> 32 word" where
  "get_uint32 b = foldr (\<lambda>x acc. ucast x OR push_bit 8 acc) (take 4 b) 0"

text \<open>Modelled from the spec: \<^verbatim>\<open>Cipherpack::load_public_key\<close> and
  \<^verbatim>\<open>Cipherpack::load_private_key\<close>, whose sources are not part of the given files.
  They read the key file and parse it; a missing file or a parse failure gives the null
  pointer, which is \<open>None\<close>.\<close>

definition load_public_key :: "('pk, 'sk, 'aead, 'rng) botan \<Rightarrow> filesys \<Rightarrow> cstring \<Rightarrow> 'pk option" where
  "load_public_key lib fs fname =
     (case files fs fname of None \<Rightarrow> None | Some data \<Rightarrow> x509_load_key lib data)"

definition load_private_key ::
  "('pk, 'sk, 'aead, 'rng) botan \<Rightarrow> filesys \<Rightarrow> cstring \<Rightarrow> cstring \<Rightarrow> 'sk option" where
  "load_private_key lib fs fname passphrase =
     (case files fs fname of None \<Rightarrow> None | Some data \<Rightarrow> pkcs8_load_key lib data passphrase)"

text \<open>\<^verbatim>\<open>Botan::DataSource_Stream(path, true)\<close> throws when the file cannot be opened;
  the stream is the bytes still to be read, which are the content of the file when it is
  opened.\<close>

definition open_input :: "filesys \<Rightarrow> cstring \<Rightarrow> botan_exception + bytes" where
  "open_input fs fname = (case files fs fname of None \<Rightarrow> Inl Stream_IO_Error | Some data \<Rightarrow> Inr data)"

text \<open>
  Modelled from the spec: \<^verbatim>\<open>IOUtil::read_stream\<close> and \<^verbatim>\<open>IOUtil::read_file\<close>, whose
  sources are not part of the given files. The stream is read into a buffer of
  \<open>n\<close> bytes; every read that fills the buffer is handed to the sink as a non-final
  chunk, and the read that meets the end of the stream (possibly with zero bytes) as the
  final chunk, exactly once. The result is the number of bytes read. An exception of the
  sink leaves the loop, with the state before that chunk. With a buffer of no bytes the
  end of the stream is never met and the loop does not return: that is \<open>None\<close>.
  \<^verbatim>\<open>read_file\<close> returns a negative value when the file cannot be opened.
\<close>

function read_stream ::
  "nat \<Rightarrow> bytes \<Rightarrow> (bytes \<Rightarrow> bool \<Rightarrow> 's \<Rightarrow> botan_exception + 's) \<Rightarrow> int \<Rightarrow> 's
   \<Rightarrow> ((botan_exception \<times> 's) + (int \<times> 's)) option" where
  "read_stream n input sink bytes_read s =
     (if n = 0 then None
      else let data = take n input; is_final = (length input < n)
           in case sink data is_final s of
                Inl x \<Rightarrow> Some (Inl (x, s))
              | Inr s' \<Rightarrow>
                  if is_final then Some (Inr (bytes_read + int (length data), s'))
                  else read_stream n (drop n input) sink (bytes_read + int (length data)) s')"
  by pat_completeness auto
termination
  by (relation "measure (\<lambda>(n, input, sink, bytes_read, s). length input)") auto

declare read_stream.simps [simp del]

definition read_file ::
  "filesys \<Rightarrow> cstring \<Rightarrow> nat \<Rightarrow> (bytes \<Rightarrow> bool \<Rightarrow> 's \<Rightarrow> botan_exception + 's) \<Rightarrow> 's
   \<Rightarrow> ((botan_exception \<times> 's) + (int \<times> 's)) option" where
  "read_file fs fname n sink s =
     (case files fs fname of
        None \<Rightarrow> Some (Inr (- 1, s))
      | Some input \<Rightarrow> read_stream n input sink 0 s)"

text \<open>
  Modelled from the spec: \<^verbatim>\<open>PK_Decryptor::decrypt_or_random\<close> of Botan, which is not
  part of the given files. When the ciphertext does not unwrap, or unwraps to a key of
  another length than expected, a random string of the expected length is returned in
  its place.
\<close>

definition decrypt_or_random ::
  "('pk, 'sk, 'aead, 'rng) botan \<Rightarrow> 'sk \<Rightarrow> cstring \<Rightarrow> bytes \<Rightarrow> nat \<Rightarrow> 'rng
   \<Rightarrow> botan_exception + (bytes \<times> 'rng)" where
  "decrypt_or_random lib key eme ct expected_pt_len rng =
     (let (fake, rng') = random_vec lib rng expected_pt_len
      in case pk_decrypt lib key eme ct of
           Inl x \<Rightarrow> Inl x
         | Inr None \<Rightarrow> Inr (fake, rng')
         | Inr (Some pt) \<Rightarrow> Inr (if length pt = expected_pt_len then pt else fake, rng'))"

text \<open>\<^verbatim>\<open>AEAD_Mode::create_or_throw\<close> throws where \<^verbatim>\<open>create\<close> returns the null pointer.\<close>

definition aead_create_or_throw ::
  "('pk, 'sk, 'aead, 'rng) botan \<Rightarrow> cstring \<Rightarrow> bool \<Rightarrow> botan_exception + 'aead" where
  "aead_create_or_throw lib algo dir =
     (case aead_create lib algo dir of None \<Rightarrow> Inl Lookup_Error | Some a \<Rightarrow> Inr a)"

text \<open>The strings the source builds: \<^verbatim>\<open>"RSA/" + rsa_padding_algo\<close> and
  \<^verbatim>\<open>rsa_padding_algo + "(" + rsa_hash_algo + ")"\<close>.\<close>

definition padding_combo :: "config \<Rightarrow> cstring" where
  "padding_combo cfg = [0x52, 0x53, 0x41, 0x2F] @ rsa_padding_algo cfg"

definition eme_name :: "config \<Rightarrow> cstring" where
  "eme_name cfg = rsa_padding_algo cfg @ [0x28] @ rsa_hash_algo cfg @ [0x29]"

subsection \<open>What both operations share\<close>

text \<open>Lines 25-40 and 214-229: the overwrite guard and the opening of the output
  stream, before the \<^verbatim>\<open>try\<close> block.\<close>

definition open_outfile :: "filesys \<Rightarrow> cstring \<Rightarrow> bool \<Rightarrow> (error \<times> filesys) + (ofstream \<times> filesys)" where
  "open_outfile fs outfilename overwrite =
     (let guard =
            (if file_exists fs outfilename then
               if overwrite then
                 (let (removed, fs') = remove_file fs outfilename
                  in if \<not> removed then Inl (Failed_deletion_of_existing_output_file, fs') else Inr fs')
               else Inl (Not_overwriting_existing_output_file, fs)
             else Inr fs)
      in case guard of
           Inl r \<Rightarrow> Inl r
         | Inr fs1 \<Rightarrow>
             (let (outfile, fs2) = ofstream_open fs1 outfilename
              in if os_fail outfile then Inl (Output_file_not_open, fs2) else Inr (outfile, fs2)))"

text \<open>The lambda \<^verbatim>\<open>consume_data\<close>, the same in both operations: a non-final chunk goes
  through \<^verbatim>\<open>aead->update\<close>, the final one through \<^verbatim>\<open>aead->finish\<close>, and the result
  is written to the output stream. The state is the AEAD object, the output stream and
  the file system.\<close>

definition consume_data ::
  "('pk, 'sk, 'aead, 'rng) botan \<Rightarrow> bytes \<Rightarrow> bool \<Rightarrow> 'aead \<times> ofstream \<times> filesys
   \<Rightarrow> botan_exception + ('aead \<times> ofstream \<times> filesys)" where
  "consume_data lib data is_final st =
     (case st of (aead, outfile, fs) \<Rightarrow>
        if \<not> is_final then
          (case aead_update lib aead data of
             Inl x \<Rightarrow> Inl x
           | Inr (aead', out) \<Rightarrow>
               (let (outfile', fs') = ofstream_write outfile fs out in Inr (aead', outfile', fs')))
        else
          (case aead_finish lib aead data of
             Inl x \<Rightarrow> Inl x
           | Inr out \<Rightarrow>
               (let (outfile', fs') = ofstream_write outfile fs out in Inr (aead, outfile', fs'))))"

text \<open>The end of both \<^verbatim>\<open>try\<close> blocks: an exception from the read loop is in flight
  with the file system of that moment; a negative byte count or a failed output stream
  removes the output and returns \<^verbatim>\<open>false\<close>. The byte counters of the source only feed
  diagnostics and are left out.\<close>

definition after_read ::
  "cstring \<Rightarrow> 'r \<Rightarrow> ((botan_exception \<times> ('aead \<times> ofstream \<times> filesys)) + (int \<times> ('aead \<times> ofstream \<times> filesys)))
   \<Rightarrow> ('r \<times> filesys) step" where
  "after_read outfilename r res =
     (case res of
        Inl (x, (aead, outfile, fs)) \<Rightarrow> Throw x fs
      | Inr (in_bytes_total, (aead, outfile, fs)) \<Rightarrow>
          if 0 > in_bytes_total \<or> os_fail outfile
          then remove_and_return Output_file_write_failed fs outfilename
          else Next (r, fs))"

text \<open>Every return behind lines 36 and 225 leaves the scope of \<^verbatim>\<open>outfile\<close>, whose
  destructor closes the stream.\<close>

definition close_outfile :: "cstring \<Rightarrow> (error + 'a) \<times> filesys \<Rightarrow> (error + 'a) \<times> filesys" where
  "close_outfile outfilename res = (case res of (r, fs) \<Rightarrow> (r, ofstream_close fs outfilename))"

text \<open>The \<^verbatim>\<open>try\<close> block in two parts: what comes before the read loop, and the read
  loop, which may not return.\<close>

definition before_loop :: "'a step \<Rightarrow> ('a \<Rightarrow> 'b step option) \<Rightarrow> 'b step option" where
  "before_loop m f =
     (case m of Next v \<Rightarrow> f v | Return e fs \<Rightarrow> Some (Return e fs) | Throw x fs \<Rightarrow> Some (Throw x fs))"

subsection \<open>encryptThenSign_RSA1\<close>

text \<open>What lines 45-79 establish for the rest of the \<^verbatim>\<open>try\<close> block.\<close>

record ('sk, 'aead, 'rng) encrypt_context =
  ec_sign_sec_key :: 'sk
  ec_pk_alg_id :: algorithm_identifier
  ec_cipher_algo_oid :: OID
  ec_file_key :: bytes
  ec_encrypted_key :: bytes
  ec_nonce :: bytes
  ec_aead :: 'aead
  ec_rng :: 'rng

text \<open>
  Lines 45-79: the keys, the AEAD object, the OIDs and algorithm identifiers, the file
  key, its wrapping, the nonce, and the keying of the AEAD. The five early returns here
  are plain \<^verbatim>\<open>return false\<close> in the source, without a call of
  \<^verbatim>\<open>IOUtil::remove\<close>. The constructor of \<^verbatim>\<open>PK_Encryptor_EME\<close> (line 70) and
  its \<^verbatim>\<open>encrypt\<close> (line 74) are the one call \<open>pk_encrypt\<close>; line 72 between them
  cannot throw.
\<close>

definition encrypt_setup ::
  "('pk, 'sk, 'aead, 'rng) botan \<Rightarrow> config \<Rightarrow> 'rng \<Rightarrow> filesys \<Rightarrow> cstring \<Rightarrow> cstring \<Rightarrow> cstring
   \<Rightarrow> ('sk, 'aead, 'rng) encrypt_context step" where
  "encrypt_setup lib cfg rng fs enc_pub_key_fname sign_sec_key_fname passphrase =
     (case load_public_key lib fs enc_pub_key_fname of
        None \<Rightarrow> Return Key_not_loaded fs
      | Some enc_pub_key \<Rightarrow>
     (case load_private_key lib fs sign_sec_key_fname passphrase of
        None \<Rightarrow> Return Key_not_loaded fs
      | Some sign_sec_key \<Rightarrow>
     (case aead_create lib (aead_cipher_algo cfg) False of
        None \<Rightarrow> Return AEAD_algo_not_available fs
      | Some aead \<Rightarrow>
     and_then (call fs (oid_from_string lib (aead_cipher_algo cfg))) (\<lambda>cipher_algo_oid.
     if cipher_algo_oid = [] then Return No_OID_defined_for_cipher_algo fs
     else
     and_then (call fs (oid_from_string lib (rsa_hash_algo cfg))) (\<lambda>hash_oid.
     and_then (call fs (oid_from_string lib (padding_combo cfg))) (\<lambda>pk_oid.
     let hash_id = \<lparr>oid = hash_oid, parameters = []\<rparr>;
         pk_alg_id = \<lparr>oid = pk_oid, parameters = ber_encode_algid lib hash_id\<rparr>;
         (file_key, rng1) = random_vec lib rng (maximum_keylength lib aead)
     in
     and_then (call fs (pk_encrypt lib enc_pub_key (eme_name cfg) file_key rng1)) (\<lambda>(encrypted_key, rng2).
     let (nonce, rng3) = random_vec lib rng2 (ChaCha_Nonce_Size cfg)
     in
     and_then (call fs (aead_set_key lib aead file_key)) (\<lambda>aead1.
     and_then (call fs (aead_set_associated_data lib aead1 encrypted_key)) (\<lambda>aead2.
     and_then (call fs (aead_start lib aead2 nonce)) (\<lambda>aead3.
     Next \<lparr>ec_sign_sec_key = sign_sec_key, ec_pk_alg_id = pk_alg_id,
           ec_cipher_algo_oid = cipher_algo_oid, ec_file_key = file_key,
           ec_encrypted_key = encrypted_key, ec_nonce = nonce, ec_aead = aead3,
           ec_rng = rng3\<rparr>))))))))))"

text \<open>The Header-1 the source encodes, for a given content of the size element;
  \<^verbatim>\<open>payload_version\<close> is 1 and \<^verbatim>\<open>payload_version_parent\<close> is 0 (lines 82-83).\<close>

definition encrypt_header1 ::
  "config \<Rightarrow> ('sk, 'aead, 'rng) encrypt_context \<Rightarrow> cstring \<Rightarrow> bytes \<Rightarrow> header1" where
  "encrypt_header1 cfg ctx data_fname header1_size_buffer =
     \<lparr>h_package_magic = package_magic cfg,
      h_header1_size_buffer = header1_size_buffer,
      h_filename = data_fname,
      h_payload_version = 1,
      h_payload_version_parent = 0,
      h_sign_algo = rsa_sign_algo cfg,
      h_pk_alg_id = ec_pk_alg_id ctx,
      h_cipher_algo_oid = ec_cipher_algo_oid ctx,
      h_encrypted_key = ec_encrypted_key ctx,
      h_nonce = ec_nonce ctx\<rparr>"

text \<open>Lines 88-126: pass 1 encodes with the four zero bytes of
  \<^verbatim>\<open>header1_size_buffer(4)\<close> and measures; the length goes, as \<^verbatim>\<open>uint32_t\<close>,
  little-endian into the buffer; pass 2 encodes again. The result is the buffer that is
  written and signed.\<close>

definition encrypt_header1_bytes ::
  "('pk, 'sk, 'aead, 'rng) botan \<Rightarrow> config \<Rightarrow> ('sk, 'aead, 'rng) encrypt_context \<Rightarrow> cstring \<Rightarrow> bytes" where
  "encrypt_header1_bytes lib cfg ctx data_fname =
     (let header_buffer = der_header1 lib (encrypt_header1 cfg ctx data_fname (replicate 4 0));
          header1_size = (of_nat (length header_buffer) :: 32 word);
          header1_size_buffer = put_uint32 header1_size
      in der_header1 lib (encrypt_header1 cfg ctx data_fname header1_size_buffer))"

text \<open>Lines 81-147: Header-1 is written, signed, and Header-2 with the signature is
  written.\<close>

definition encrypt_headers ::
  "('pk, 'sk, 'aead, 'rng) botan \<Rightarrow> config \<Rightarrow> ('sk, 'aead, 'rng) encrypt_context \<Rightarrow> cstring
   \<Rightarrow> ofstream \<Rightarrow> filesys \<Rightarrow> (ofstream \<times> filesys) step" where
  "encrypt_headers lib cfg ctx data_fname outfile fs =
     (let header_buffer = encrypt_header1_bytes lib cfg ctx data_fname;
          (outfile1, fs1) = ofstream_write outfile fs header_buffer
      in
      and_then (call fs1 (pk_sign lib (ec_sign_sec_key ctx) (rsa_sign_algo cfg) header_buffer (ec_rng ctx)))
        (\<lambda>(signature, rng').
           let header_buffer2 = der_header2 lib signature;
               (outfile2, fs2) = ofstream_write outfile1 fs1 header_buffer2
           in Next (outfile2, fs2)))"

text \<open>Lines 156-178: the input file goes through \<^verbatim>\<open>consume_data\<close>.\<close>

definition encrypt_payload ::
  "('pk, 'sk, 'aead, 'rng) botan \<Rightarrow> config \<Rightarrow> 'aead \<Rightarrow> cstring \<Rightarrow> cstring \<Rightarrow> ofstream \<Rightarrow> filesys
   \<Rightarrow> (unit \<times> filesys) step option" where
  "encrypt_payload lib cfg aead data_fname outfilename outfile fs =
     map_option (after_read outfilename ())
       (read_file fs data_fname (buffer_size cfg) (consume_data lib) (aead, outfile, fs))"

text \<open>The operation. \<open>Inr ()\<close> is \<^verbatim>\<open>return true\<close>, \<open>Inl e\<close> is \<^verbatim>\<open>return false\<close> at
  the place \<open>e\<close> names; the file system is the one left behind, after the output stream
  was closed. \<open>None\<close>: the read loop does not return.\<close>

definition encryptThenSign_RSA1 ::
  "('pk, 'sk, 'aead, 'rng) botan \<Rightarrow> config \<Rightarrow> 'rng \<Rightarrow> filesys
   \<Rightarrow> cstring \<Rightarrow> cstring \<Rightarrow> cstring \<Rightarrow> cstring \<Rightarrow> cstring \<Rightarrow> bool
   \<Rightarrow> ((error + unit) \<times> filesys) option" where
  "encryptThenSign_RSA1 lib cfg rng fs enc_pub_key_fname sign_sec_key_fname passphrase
       data_fname outfilename overwrite =
     (case open_outfile fs outfilename overwrite of
        Inl (e, fs') \<Rightarrow> Some (Inl e, fs')
      | Inr (outfile, fs1) \<Rightarrow>
          map_option (close_outfile outfilename)
            (map_option (catch_all outfilename)
               (before_loop (encrypt_setup lib cfg rng fs1 enc_pub_key_fname sign_sec_key_fname passphrase)
                  (\<lambda>ctx. before_loop (encrypt_headers lib cfg ctx data_fname outfile fs1)
                     (\<lambda>(outfile2, fs2).
                        encrypt_payload lib cfg (ec_aead ctx) data_fname outfilename outfile2 fs2)))))"

subsection \<open>checkSignThenDecrypt_RSA1\<close>

text \<open>Lines 234-241: the two keys; both failures are plain \<^verbatim>\<open>return false\<close>.\<close>

definition decrypt_load_keys ::
  "('pk, 'sk, 'aead, 'rng) botan \<Rightarrow> filesys \<Rightarrow> cstring \<Rightarrow> cstring \<Rightarrow> cstring \<Rightarrow> ('pk \<times> 'sk) step" where
  "decrypt_load_keys lib fs sign_pub_key_fname dec_sec_key_fname passphrase =
     (case load_public_key lib fs sign_pub_key_fname of
        None \<Rightarrow> Return Key_not_loaded fs
      | Some sign_pub_key \<Rightarrow>
     (case load_private_key lib fs dec_sec_key_fname passphrase of
        None \<Rightarrow> Return Key_not_loaded fs
      | Some dec_sec_key \<Rightarrow> Next (sign_pub_key, dec_sec_key)))"

text \<open>Lines 255-296: the first two elements of Header-1 are decoded from the stream,
  the magic is compared and the size read.\<close>

definition decrypt_snoop ::
  "('pk, 'sk, 'aead, 'rng) botan \<Rightarrow> config \<Rightarrow> filesys \<Rightarrow> cstring \<Rightarrow> cstring \<Rightarrow> 32 word step" where
  "decrypt_snoop lib cfg fs data_fname outfilename =
     catch_decoding_error Header1a_invalid_input_file_format outfilename
       (and_then (call fs (open_input fs data_fname)) (\<lambda>input.
        and_then (call fs (ber_header1_snoop lib input)) (\<lambda>(package_magic_charvec, header1_size_buffer).
          if package_magic_charvec = []
          then remove_and_return Unknown_package_magic fs outfilename
          else if package_magic_charvec \<noteq> package_magic cfg
          then remove_and_return Expected_package_magic fs outfilename
          else if 4 \<noteq> length header1_size_buffer
          then remove_and_return Expected_header1_size_element_of_4_bytes fs outfilename
          else Next (get_uint32 header1_size_buffer))))"

text \<open>Lines 298-354: the input is opened again, \<^verbatim>\<open>header1_size\<close> bytes are read
  into \<^verbatim>\<open>header_buffer\<close> and decoded, Header-2 is decoded from the stream behind
  them, and the signature is checked over \<^verbatim>\<open>header_buffer\<close>. The result is the
  decoded header and the rest of the stream.\<close>

definition decrypt_headers ::
  "('pk, 'sk, 'aead, 'rng) botan \<Rightarrow> config \<Rightarrow> 'pk \<Rightarrow> 32 word \<Rightarrow> filesys \<Rightarrow> cstring \<Rightarrow> cstring
   \<Rightarrow> (header1 \<times> bytes) step" where
  "decrypt_headers lib cfg sign_pub_key header1_size fs data_fname outfilename =
     and_then (call fs (open_input fs data_fname)) (\<lambda>input.
       catch_decoding_error Invalid_input_file_format outfilename
         (let header_buffer = take (unat header1_size) input
          in if length header_buffer \<noteq> unat header1_size
             then remove_and_return Expected_header1_size fs outfilename
             else
             and_then (call fs (ber_header1 lib header_buffer)) (\<lambda>h.
             and_then (call fs (ber_header2 lib (drop (unat header1_size) input))) (\<lambda>(signature, rest).
             and_then (call fs (pk_verify lib sign_pub_key (rsa_sign_algo cfg) header_buffer signature)) (\<lambda>ok.
             if \<not> ok then remove_and_return Signature_mismatch fs outfilename
             else Next (h, rest))))))"

text \<open>Lines 356-436: the checks of the decoded elements, in the order of the source.
  The result is \<^verbatim>\<open>cipher_algo\<close>.\<close>

definition decrypt_validate ::
  "('pk, 'sk, 'aead, 'rng) botan \<Rightarrow> config \<Rightarrow> header1 \<Rightarrow> filesys \<Rightarrow> cstring \<Rightarrow> cstring step" where
  "decrypt_validate lib cfg h fs outfilename =
     (if h_filename h = [] then remove_and_return Unknown_filename fs outfilename
      else if h_sign_algo h = [] then remove_and_return Unknown_signing_algo fs outfilename
      else if h_sign_algo h \<noteq> rsa_sign_algo cfg
      then remove_and_return Expected_signing_algo fs outfilename
      else if oid2str_or_empty lib (oid (h_pk_alg_id h)) \<noteq> padding_combo cfg
      then remove_and_return Expected_padding_algo fs outfilename
      else
      and_then (call fs (ber_decode_algid lib (parameters (h_pk_alg_id h)))) (\<lambda>hash_algo_id.
      let hash_algo = oid2str_or_empty lib (oid hash_algo_id)
      in if hash_algo = [] then remove_and_return Unknown_hash_function fs outfilename
         else if hash_algo \<noteq> rsa_hash_algo cfg
         then remove_and_return Expected_hash_function fs outfilename
         else if parameters hash_algo_id \<noteq> []
         then remove_and_return Unknown_hash_function_parameter fs outfilename
         else
         let cipher_algo = oid2str_or_empty lib (h_cipher_algo_oid h)
         in if cipher_algo = [] then remove_and_return Unknown_cipher_algo fs outfilename
            else if cipher_algo \<noteq> aead_cipher_algo cfg
            then remove_and_return Expected_cipher_algo fs outfilename
            else Next cipher_algo))"

text \<open>Lines 438-453: the AEAD object (\<^verbatim>\<open>create_or_throw\<close> never returns the null
  pointer, so the check behind it cannot fire), the unwrapping of the file key, and the
  keying of the AEAD.\<close>

definition decrypt_setup ::
  "('pk, 'sk, 'aead, 'rng) botan \<Rightarrow> config \<Rightarrow> 'sk \<Rightarrow> 'rng \<Rightarrow> cstring \<Rightarrow> header1 \<Rightarrow> filesys
   \<Rightarrow> 'aead step" where
  "decrypt_setup lib cfg dec_sec_key rng cipher_algo h fs =
     and_then (call fs (aead_create_or_throw lib cipher_algo True)) (\<lambda>aead.
     let expected_keylen = maximum_keylength lib aead
     in
     and_then (call fs (decrypt_or_random lib dec_sec_key (eme_name cfg) (h_encrypted_key h) expected_keylen rng))
       (\<lambda>(file_key, rng').
     and_then (call fs (aead_set_key lib aead file_key)) (\<lambda>aead1.
     and_then (call fs (aead_set_associated_data lib aead1 (h_encrypted_key h))) (\<lambda>aead2.
     and_then (call fs (aead_start lib aead2 (h_nonce h))) (\<lambda>aead3.
     Next aead3)))))"

text \<open>Lines 455-483: the rest of the input stream goes through \<^verbatim>\<open>consume_data\<close>.\<close>

definition decrypt_payload ::
  "('pk, 'sk, 'aead, 'rng) botan \<Rightarrow> config \<Rightarrow> 'aead \<Rightarrow> header1 \<Rightarrow> bytes \<Rightarrow> cstring \<Rightarrow> ofstream \<Rightarrow> filesys
   \<Rightarrow> (header1 \<times> filesys) step option" where
  "decrypt_payload lib cfg aead h input outfilename outfile fs =
     map_option (after_read outfilename h)
       (read_stream (buffer_size cfg) input (consume_data lib) 0 (aead, outfile, fs))"

text \<open>Lines 234-453 in sequence: everything in the \<^verbatim>\<open>try\<close> block before the read
  loop. The result is the keyed AEAD object, the decoded header and the rest of the
  input stream.\<close>

definition decrypt_before_payload ::
  "('pk, 'sk, 'aead, 'rng) botan \<Rightarrow> config \<Rightarrow> 'rng \<Rightarrow> filesys
   \<Rightarrow> cstring \<Rightarrow> cstring \<Rightarrow> cstring \<Rightarrow> cstring \<Rightarrow> cstring
   \<Rightarrow> ('aead \<times> header1 \<times> bytes) step" where
  "decrypt_before_payload lib cfg rng fs1 sign_pub_key_fname dec_sec_key_fname passphrase
       data_fname outfilename =
     and_then (decrypt_load_keys lib fs1 sign_pub_key_fname dec_sec_key_fname passphrase)
       (\<lambda>(sign_pub_key, dec_sec_key).
     and_then (decrypt_snoop lib cfg fs1 data_fname outfilename) (\<lambda>header1_size.
     and_then (decrypt_headers lib cfg sign_pub_key header1_size fs1 data_fname outfilename)
       (\<lambda>(h, input).
     and_then (decrypt_validate lib cfg h fs1 outfilename) (\<lambda>cipher_algo.
     and_then (decrypt_setup lib cfg dec_sec_key rng cipher_algo h fs1) (\<lambda>aead.
     Next (aead, h, input))))))"

text \<open>The operation. \<open>Inr h\<close> is \<^verbatim>\<open>return true\<close>, with the header the run decoded
  (the source prints its elements); \<open>Inl e\<close> is \<^verbatim>\<open>return false\<close> at the place \<open>e\<close>
  names. \<open>None\<close>: the read loop does not return.\<close>

definition checkSignThenDecrypt_RSA1 ::
  "('pk, 'sk, 'aead, 'rng) botan \<Rightarrow> config \<Rightarrow> 'rng \<Rightarrow> filesys
   \<Rightarrow> cstring \<Rightarrow> cstring \<Rightarrow> cstring \<Rightarrow> cstring \<Rightarrow> cstring \<Rightarrow> bool
   \<Rightarrow> ((error + header1) \<times> filesys) option" where
  "checkSignThenDecrypt_RSA1 lib cfg rng fs sign_pub_key_fname dec_sec_key_fname passphrase
       data_fname outfilename overwrite =
     (case open_outfile fs outfilename overwrite of
        Inl (e, fs') \<Rightarrow> Some (Inl e, fs')
      | Inr (outfile, fs1) \<Rightarrow>
          map_option (close_outfile outfilename)
            (map_option (catch_all outfilename)
               (before_loop
                  (decrypt_before_payload lib cfg rng fs1 sign_pub_key_fname dec_sec_key_fname passphrase
                     data_fname outfilename)
                  (\<lambda>(aead, h, input). decrypt_payload lib cfg aead h input outfilename outfile fs1))))"

subsection \<open>Notions used to state the properties\<close>

text \<open>The bytes an AEAD object produces for a stream that \<^verbatim>\<open>read_stream\<close> hands to it
  in chunks of \<open>n\<close> bytes: \<^verbatim>\<open>consume_data\<close> without the output file.\<close>

definition aead_sink ::
  "('pk, 'sk, 'aead, 'rng) botan \<Rightarrow> bytes \<Rightarrow> bool \<Rightarrow> 'aead \<times> bytes \<Rightarrow> botan_exception + ('aead \<times> bytes)" where
  "aead_sink lib data is_final st =
     (case st of (aead, acc) \<Rightarrow>
        if \<not> is_final then
          (case aead_update lib aead data of
             Inl x \<Rightarrow> Inl x
           | Inr (aead', out) \<Rightarrow> Inr (aead', acc @ out))
        else
          (case aead_finish lib aead data of
             Inl x \<Rightarrow> Inl x
           | Inr out \<Rightarrow> Inr (aead, acc @ out)))"

definition aead_stream ::
  "('pk, 'sk, 'aead, 'rng) botan \<Rightarrow> nat \<Rightarrow> 'aead \<Rightarrow> bytes \<Rightarrow> (botan_exception + bytes) option" where
  "aead_stream lib n aead input =
     (case read_stream n input (aead_sink lib) 0 (aead, []) of
        None \<Rightarrow> None
      | Some (Inl (x, st)) \<Rightarrow> Some (Inl x)
      | Some (Inr (bytes_read, (aead', out))) \<Rightarrow> Some (Inr out))"

text \<open>The three calls that prepare the AEAD object in both operations (lines 77-79 and
  451-453), \<^verbatim>\<open>set_key\<close>, \<^verbatim>\<open>set_associated_data_vec\<close> and \<^verbatim>\<open>start\<close>, as one.\<close>

definition aead_keyed ::
  "('pk, 'sk, 'aead, 'rng) botan \<Rightarrow> 'aead \<Rightarrow> bytes \<Rightarrow> bytes \<Rightarrow> bytes \<Rightarrow> botan_exception + 'aead" where
  "aead_keyed lib aead file_key associated_data nonce =
     (case aead_set_key lib aead file_key of
        Inl x \<Rightarrow> Inl x
      | Inr aead1 \<Rightarrow>
          (case aead_set_associated_data lib aead1 associated_data of
             Inl x \<Rightarrow> Inl x
           | Inr aead2 \<Rightarrow> aead_start lib aead2 nonce))"


text \<open>The operation returned \<^verbatim>\<open>false\<close> and no file exists at the output path.\<close>

definition failed_without_output :: "((error + 'a) \<times> filesys) option \<Rightarrow> cstring \<Rightarrow> bool" where
  "failed_without_output res outfilename =
     (case res of
        Some (Inl e, fs) \<Rightarrow> files fs outfilename = None
      | _ \<Rightarrow> False)"

text \<open>The operation returned \<^verbatim>\<open>false\<close> at the place \<open>e\<close> names, and no file exists
  at the output path.\<close>

definition fails_with :: "((error + 'a) \<times> filesys) option \<Rightarrow> cstring \<Rightarrow> error \<Rightarrow> bool" where
  "fails_with res outfilename e =
     (case res of
        Some (Inl e', fs) \<Rightarrow> e' = e \<and> files fs outfilename = None
      | _ \<Rightarrow> False)"

text \<open>The error of a run that returned \<^verbatim>\<open>false\<close>.\<close>

definition error_of :: "((error + 'a) \<times> filesys) option \<Rightarrow> error option" where
  "error_of res = (case res of Some (Inl e, fs) \<Rightarrow> Some e | _ \<Rightarrow> None)"

text \<open>A step that has returned \<^verbatim>\<open>false\<close> has removed the output before.\<close>

definition cleans :: "'a step \<Rightarrow> cstring \<Rightarrow> bool" where
  "cleans m outfilename = (case m of Return e fs \<Rightarrow> files fs outfilename = None | _ \<Rightarrow> True)"


text \<open>The errors of the steps up to the signature check (lines 255-354), and an
  exception caught there.\<close>

fun is_header_error :: "error \<Rightarrow> bool" where
  "is_header_error Header1a_invalid_input_file_format = True"
| "is_header_error Unknown_package_magic = True"
| "is_header_error Expected_package_magic = True"
| "is_header_error Expected_header1_size_element_of_4_bytes = True"
| "is_header_error Expected_header1_size = True"
| "is_header_error Invalid_input_file_format = True"
| "is_header_error Signature_mismatch = True"
| "is_header_error (Caught_exception x) = True"
| "is_header_error e = False"

text \<open>The output stream on path \<open>p\<close> of a file system that was \<open>fs0\<close> when the stream
  was opened, after \<open>pre @ acc\<close> was handed to it: either the stream is good, and the
  file and the buffer together hold these bytes, or it has failed because they outgrow
  the capacity.\<close>

definition writing :: "cstring \<Rightarrow> bytes \<Rightarrow> filesys \<Rightarrow> ofstream \<times> filesys \<Rightarrow> bytes \<Rightarrow> bool" where
  "writing p pre fs0 st acc =
     (case st of (outfile, fs) \<Rightarrow>
        os_path outfile = p \<and> unflushed fs0 p = []
        \<and> (\<exists>written pending.
              fs = fs0\<lparr>files := (files fs0)(p \<mapsto> written),
                       unflushed := (unflushed fs0)(p := pending)\<rparr>
              \<and> (if os_fail outfile
                 then capacity fs0 < length (pre @ acc) \<and> pending = []
                 else written @ pending = pre @ acc \<and> length written \<le> capacity fs0)))"

text \<open>The content a run leaves at a path.\<close>

definition output_of :: "((error + 'a) \<times> filesys) option \<Rightarrow> cstring \<Rightarrow> bytes option" where
  "output_of res p = (case res of Some (r, fs) \<Rightarrow> files fs p | None \<Rightarrow> None)"

subsection \<open>A small instance of the library\<close>

text \<open>
  A toy instance of the parameters, to run the operations on concrete inputs. Keys are
  byte strings, and a key pair is a byte string with itself. Wrapping prefixes the public
  key, a signature is the key followed by the signed bytes. The AEAD adds the sum of the
  key bytes to every byte and appends a one-byte tag over key, associated data, nonce and
  ciphertext. Every element is encoded as a length byte and its content; names are their
  own OIDs.
\<close>

record toy_aead =
  ta_decrypt :: bool
  ta_key :: bytes
  ta_ad :: bytes
  ta_nonce :: bytes
  ta_mac :: byte

definition toy_tag :: "toy_aead \<Rightarrow> bytes \<Rightarrow> byte" where
  "toy_tag a ct = ta_mac a + sum_list ct + sum_list (ta_key a) + sum_list (ta_ad a) + sum_list (ta_nonce a)"

definition toy_update :: "toy_aead \<Rightarrow> bytes \<Rightarrow> botan_exception + (toy_aead \<times> bytes)" where
  "toy_update a data =
     (if ta_decrypt a
      then Inr (a\<lparr>ta_mac := ta_mac a + sum_list data\<rparr>, map (\<lambda>b. b - sum_list (ta_key a)) data)
      else (let out = map (\<lambda>b. b + sum_list (ta_key a)) data
            in Inr (a\<lparr>ta_mac := ta_mac a + sum_list out\<rparr>, out)))"

definition toy_finish :: "toy_aead \<Rightarrow> bytes \<Rightarrow> botan_exception + bytes" where
  "toy_finish a data =
     (if ta_decrypt a
      then (if data = [] then Inl Internal_Error
            else if last data = toy_tag a (butlast data)
            then Inr (map (\<lambda>b. b - sum_list (ta_key a)) (butlast data))
            else Inl Invalid_Authentication_Tag)
      else (let out = map (\<lambda>b. b + sum_list (ta_key a)) data
            in Inr (out @ [toy_tag a out])))"

definition toy_put :: "bytes \<Rightarrow> bytes" where
  "toy_put b = of_nat (length b) # b"

definition toy_get :: "bytes \<Rightarrow> (bytes \<times> bytes) option" where
  "toy_get b =
     (case b of
        [] \<Rightarrow> None
      | l # r \<Rightarrow> if length r < unat l then None else Some (take (unat l) r, drop (unat l) r))"

fun toy_fields :: "nat \<Rightarrow> bytes \<Rightarrow> bytes list option" where
  "toy_fields 0 b = Some []"
| "toy_fields (Suc k) b =
     (case toy_get b of
        None \<Rightarrow> None
      | Some (f, r) \<Rightarrow> map_option ((#) f) (toy_fields k r))"

definition toy_oid_bytes :: "OID \<Rightarrow> bytes" where
  "toy_oid_bytes x = map of_nat x"

definition toy_encode_algid :: "algorithm_identifier \<Rightarrow> bytes" where
  "toy_encode_algid a = toy_put (toy_put (toy_oid_bytes (oid a)) @ toy_put (parameters a))"

definition toy_decode_algid :: "bytes \<Rightarrow> botan_exception + algorithm_identifier" where
  "toy_decode_algid b =
     (case toy_get b of
        None \<Rightarrow> Inl Decoding_Error
      | Some (body, r) \<Rightarrow>
          (case toy_fields 2 body of
             None \<Rightarrow> Inl Decoding_Error
           | Some fl \<Rightarrow> Inr \<lparr>oid = map unat (fl ! 0), parameters = fl ! 1\<rparr>))"

definition toy_der_header1 :: "header1 \<Rightarrow> bytes" where
  "toy_der_header1 h =
     toy_put (concat (map toy_put
       [h_package_magic h, h_header1_size_buffer h, h_filename h,
        [ucast (h_payload_version h)], [ucast (h_payload_version_parent h)],
        h_sign_algo h, toy_oid_bytes (oid (h_pk_alg_id h)), parameters (h_pk_alg_id h),
        toy_oid_bytes (h_cipher_algo_oid h), h_encrypted_key h, h_nonce h]))"

definition toy_ber_header1 :: "bytes \<Rightarrow> botan_exception + header1" where
  "toy_ber_header1 b =
     (case toy_get b of
        None \<Rightarrow> Inl Decoding_Error
      | Some (body, r) \<Rightarrow>
          (case toy_fields 11 body of
             None \<Rightarrow> Inl Decoding_Error
           | Some fl \<Rightarrow>
               if length (fl ! 3) \<noteq> 1 \<or> length (fl ! 4) \<noteq> 1 then Inl Decoding_Error
               else Inr \<lparr>h_package_magic = fl ! 0, h_header1_size_buffer = fl ! 1,
                         h_filename = fl ! 2,
                         h_payload_version = ucast (hd (fl ! 3)),
                         h_payload_version_parent = ucast (hd (fl ! 4)),
                         h_sign_algo = fl ! 5,
                         h_pk_alg_id = \<lparr>oid = map unat (fl ! 6), parameters = fl ! 7\<rparr>,
                         h_cipher_algo_oid = map unat (fl ! 8),
                         h_encrypted_key = fl ! 9, h_nonce = fl ! 10\<rparr>))"

definition toy_ber_header1_snoop :: "bytes \<Rightarrow> botan_exception + (bytes \<times> bytes)" where
  "toy_ber_header1_snoop b =
     (case toy_get b of
        None \<Rightarrow> Inl Decoding_Error
      | Some (body, r) \<Rightarrow>
          (case toy_fields 2 body of
             None \<Rightarrow> Inl Decoding_Error
           | Some fl \<Rightarrow> Inr (fl ! 0, fl ! 1)))"

definition toy_ber_header2 :: "bytes \<Rightarrow> botan_exception + (bytes \<times> bytes)" where
  "toy_ber_header2 b =
     (case toy_get b of
        None \<Rightarrow> Inl Decoding_Error
      | Some (body, r) \<Rightarrow>
          (case toy_get body of
             None \<Rightarrow> Inl Decoding_Error
           | Some (signature, r') \<Rightarrow> Inr (signature, r)))"

definition toy :: "(bytes, bytes, toy_aead, nat) botan" where
  "toy =
     \<lparr>x509_load_key = (\<lambda>data. if data = [] then None else Some data),
      pkcs8_load_key = (\<lambda>data passphrase. if data = [] then None else Some data),
      random_vec = (\<lambda>rng n. (map (\<lambda>i. of_nat (rng + i)) [0..<n], rng + n)),
      aead_create = (\<lambda>algo dir. if algo = [0x43] then
                       Some \<lparr>ta_decrypt = dir, ta_key = [], ta_ad = [], ta_nonce = [], ta_mac = 0\<rparr>
                     else None),
      maximum_keylength = (\<lambda>a. 2),
      aead_set_key = (\<lambda>a k. if length k = 2 then Inr (a\<lparr>ta_key := k\<rparr>) else Inl Invalid_Argument),
      aead_set_associated_data = (\<lambda>a ad. Inr (a\<lparr>ta_ad := ad\<rparr>)),
      aead_start = (\<lambda>a n. if length n = 1 then Inr (a\<lparr>ta_nonce := n, ta_mac := 0\<rparr>) else Inl Invalid_Argument),
      aead_update = toy_update,
      aead_finish = toy_finish,
      oid_from_string = (\<lambda>s. if s = [] then Inl Invalid_Argument else Inr (map unat s)),
      oid2str_or_empty = toy_oid_bytes,
      pk_encrypt = (\<lambda>pk eme msg rng. Inr (pk @ msg, rng)),
      pk_decrypt = (\<lambda>sk eme ct. Inr (if take (length sk) ct = sk then Some (drop (length sk) ct) else None)),
      pk_sign = (\<lambda>sk algo msg rng. Inr (sk @ msg, rng)),
      pk_verify = (\<lambda>pk algo msg signature. Inr (signature = pk @ msg)),
      der_header1 = toy_der_header1,
      ber_header1 = toy_ber_header1,
      ber_header1_snoop = toy_ber_header1_snoop,
      der_header2 = (\<lambda>signature. toy_put (toy_put signature)),
      ber_header2 = toy_ber_header2,
      ber_encode_algid = toy_encode_algid,
      ber_decode_algid = toy_decode_algid\<rparr>"

definition toy_cfg :: config where
  "toy_cfg =
     \<lparr>package_magic = [0x5A], aead_cipher_algo = [0x43], ChaCha_Nonce_Size = 1,
      rsa_padding_algo = [0x4F], rsa_hash_algo = [0x48], rsa_sign_algo = [0x45],
      buffer_size = 4\<rparr>"

text \<open>A file system with an encryption key pair at path 1, a signing key pair at path 2,
  a plaintext of five bytes at path 3 and one of three bytes at path 6; output streams
  have a buffer of 8192 bytes.\<close>

definition toy_fs :: filesys where
  "toy_fs =
     \<lparr>files = [[1] \<mapsto> [7], [2] \<mapsto> [9], [3] \<mapsto> [10, 20, 30, 40, 50], [6] \<mapsto> [10, 20, 30]],
      creatable = (\<lambda>p. True),
      capacity = 1000,
      stream_buffer = 8192,
      unflushed = (\<lambda>p. [])\<rparr>"

text \<open>The message the toy encrypt writes for a two-byte plaintext stored under the
  empty file name: Header-1 (34 bytes, its third element empty), Header-2, payload.\<close>

definition msg_empty_filename :: bytes where
  "msg_empty_filename =
     [33, 1, 90, 4, 34, 0, 0, 0, 0, 1, 1, 1, 0, 1, 69, 5, 82, 83, 65, 47, 79,
      4, 3, 1, 72, 0, 1, 67, 3, 7, 0, 1, 1, 2, 36, 35, 9, 33, 1, 90, 4, 34, 0,
      0, 0, 0, 1, 1, 1, 0, 1, 69, 5, 82, 83, 65, 47, 79, 4, 3, 1, 72, 0, 1, 67,
      3, 7, 0, 1, 1, 2, 2, 3, 16]"

text \<open>The message the toy encrypt writes for the plaintext at path 3: Header-1 (35 bytes),
  Header-2 with the signature, and the payload with its tag.\<close>

definition msg_genuine :: bytes where
  "msg_genuine =
     [34, 1, 90, 4, 35, 0, 0, 0, 1, 3, 1, 1, 1, 0, 1, 69, 5, 82, 83, 65, 47,
      79, 4, 3, 1, 72, 0, 1, 67, 3, 7, 0, 1, 1, 2, 37, 36, 9, 34, 1, 90, 4,
      35, 0, 0, 0, 1, 3, 1, 1, 1, 0, 1, 69, 5, 82, 83, 65, 47, 79, 4, 3, 1,
      72, 0, 1, 67, 3, 7, 0, 1, 1, 2, 11, 21, 31, 41, 51, 166]"

text \<open>The message the toy encrypt writes for the plaintext at path 6: the payload with its
  tag is as long as the buffer of the read loop.\<close>

definition msg_three :: bytes where
  "msg_three =
     [34, 1, 90, 4, 35, 0, 0, 0, 1, 6, 1, 1, 1, 0, 1, 69, 5, 82, 83, 65, 47,
      79, 4, 3, 1, 72, 0, 1, 67, 3, 7, 0, 1, 1, 2, 37, 36, 9, 34, 1, 90, 4,
      35, 0, 0, 0, 1, 6, 1, 1, 1, 0, 1, 69, 5, 82, 83, 65, 47, 79, 4, 3, 1,
      72, 0, 1, 67, 3, 7, 0, 1, 1, 2, 11, 21, 31, 74]"

text \<open>A message like \<open>msg_genuine\<close>, signed by the signing key, whose nested hash
  algorithm identifier names the hash and has one byte of parameters.\<close>

definition msg_hash_parameter :: bytes where
  "msg_hash_parameter =
     [35, 1, 90, 4, 36, 0, 0, 0, 1, 3, 1, 1, 1, 0, 1, 69, 5, 82, 83, 65, 47,
      79, 5, 4, 1, 72, 1, 9, 1, 67, 3, 7, 0, 1, 1, 2, 38, 37, 9, 35, 1, 90, 4,
      36, 0, 0, 0, 1, 3, 1, 1, 1, 0, 1, 69, 5, 82, 83, 65, 47, 79, 5, 4, 1, 72,
      1, 9, 1, 67, 3, 7, 0, 1, 1, 2, 11, 21, 31, 41, 51, 166]"

text \<open>The toy file system with a message at path 4, before and after decrypt has opened
  its output at path 5; and the header of the genuine message.\<close>

definition toy_fs_with :: "bytes \<Rightarrow> filesys" where
  "toy_fs_with msg = toy_fs\<lparr>files := (files toy_fs)([4] \<mapsto> msg)\<rparr>"

definition toy_fs_opened :: "bytes \<Rightarrow> filesys" where
  "toy_fs_opened msg = toy_fs\<lparr>files := (files toy_fs)([4] \<mapsto> msg, [5] \<mapsto> [])\<rparr>"

definition toy_outfile :: ofstream where
  "toy_outfile = \<lparr>os_path = [5], os_fail = False\<rparr>"

definition toy_header :: header1 where
  "toy_header =
     \<lparr>h_package_magic = [90], h_header1_size_buffer = [35, 0, 0, 0], h_filename = [3],
      h_payload_version = 1, h_payload_version_parent = 0, h_sign_algo = [69],
      h_pk_alg_id = \<lparr>oid = [82, 83, 65, 47, 79], parameters = [3, 1, 72, 0]\<rparr>,
      h_cipher_algo_oid = [67], h_encrypted_key = [7, 0, 1], h_nonce = [2]\<rparr>"




text \<open>A variant of the toy library whose unwrap throws where that of the toy library
  returns no key.\<close>

definition toy_strict :: "(bytes, bytes, toy_aead, nat) botan" where
  "toy_strict = toy\<lparr>pk_decrypt :=
     (\<lambda>sk eme ct. if take (length sk) ct = sk then Inr (Some (drop (length sk) ct))
                   else Inl Invalid_Argument)\<rparr>"


text \<open>A toy AEAD object for decryption, with key, associated data and nonce.\<close>

definition toy_dec :: "bytes \<Rightarrow> bytes \<Rightarrow> bytes \<Rightarrow> toy_aead" where
  "toy_dec k ad n = \<lparr>ta_decrypt = True, ta_key = k, ta_ad = ad, ta_nonce = n, ta_mac = 0\<rparr>"

section \<open>Properties\<close>

subsection \<open>Unfolding\<close>

lemmas step_defs = and_then_def call_def remove_and_return_def catch_all_def
  catch_decoding_error_def before_loop_def

lemmas io_defs = file_exists_def remove_file_def ofstream_open_def ofstream_write_def
  ofstream_flush_def ofstream_close_def close_outfile_def
  open_input_def load_public_key_def load_private_key_def read_file_def open_outfile_def

lemmas toy_defs = toy_def toy_cfg_def toy_fs_def toy_tag_def toy_update_def toy_finish_def
  toy_put_def toy_get_def toy_oid_bytes_def toy_encode_algid_def toy_decode_algid_def
  toy_der_header1_def toy_ber_header1_def toy_ber_header1_snoop_def toy_ber_header2_def

lemma constant_upd [simp]: "(\<lambda>p. c)(x := c) = (\<lambda>p. c)"
  by (rule ext) simp

subsection \<open>The overwrite guard\<close>

text \<open>
  C7. When the output path names an existing file and \<open>overwrite\<close> is false, both
  operations return \<^verbatim>\<open>false\<close> at the message "Not overwriting existing output file",
  and the file system they leave is the one they found: every byte of the existing file
  is unchanged.
\<close>

theorem overwrite_guard:
  assumes "files fs outfilename = Some content" and "\<not> overwrite"
  shows "encryptThenSign_RSA1 lib cfg rng fs enc_pub_key_fname sign_sec_key_fname passphrase
           data_fname outfilename overwrite
         = Some (Inl Not_overwriting_existing_output_file, fs)
       \<and> checkSignThenDecrypt_RSA1 lib cfg rng fs sign_pub_key_fname dec_sec_key_fname passphrase'
           data_fname' outfilename overwrite
         = Some (Inl Not_overwriting_existing_output_file, fs)"
  using assms
  by (simp add: encryptThenSign_RSA1_def checkSignThenDecrypt_RSA1_def open_outfile_def file_exists_def)

theorem overwrite_guard_witness:
  "files (toy_fs\<lparr>files := (files toy_fs)([4] \<mapsto> [1, 2, 3])\<rparr>) [4] = Some [1, 2, 3] \<and> \<not> False
   \<and> encryptThenSign_RSA1 toy toy_cfg 0 (toy_fs\<lparr>files := (files toy_fs)([4] \<mapsto> [1, 2, 3])\<rparr>)
         [1] [2] [] [3] [4] False
       = Some (Inl Not_overwriting_existing_output_file,
               toy_fs\<lparr>files := (files toy_fs)([4] \<mapsto> [1, 2, 3])\<rparr>)
   \<and> checkSignThenDecrypt_RSA1 toy toy_cfg 0 (toy_fs\<lparr>files := (files toy_fs)([4] \<mapsto> [1, 2, 3])\<rparr>)
         [2] [1] [] [3] [4] False
       = Some (Inl Not_overwriting_existing_output_file,
               toy_fs\<lparr>files := (files toy_fs)([4] \<mapsto> [1, 2, 3])\<rparr>)"
  using overwrite_guard [of "toy_fs\<lparr>files := (files toy_fs)([4] \<mapsto> [1, 2, 3])\<rparr>" "[4]" "[1, 2, 3]" False
      toy toy_cfg 0 "[1]" "[2]" "[]" "[3]" "[2]" "[1]" "[]" "[3]"]
  by simp

subsection \<open>Error paths that leave the output file\<close>

text \<open>
  C2. The claim is that every error path after the output file was opened returns
  \<^verbatim>\<open>false\<close> with no file at the output path, key-load failure included. At a key
  file that does not exist (path 8), encrypt and decrypt both return \<^verbatim>\<open>false\<close> at the
  key check, and the output file they opened is still there, empty: these returns do not
  call \<^verbatim>\<open>IOUtil::remove\<close>, as every other error path of the two operations does.
\<close>

theorem key_load_failure_leaves_output_file:
  "error_of (encryptThenSign_RSA1 toy toy_cfg 0 toy_fs [8] [2] [] [3] [4] False) = Some Key_not_loaded
   \<and> output_of (encryptThenSign_RSA1 toy toy_cfg 0 toy_fs [8] [2] [] [3] [4] False) [4] = Some []
   \<and> error_of (checkSignThenDecrypt_RSA1 toy toy_cfg 0 toy_fs [8] [1] [] [3] [4] False) = Some Key_not_loaded
   \<and> output_of (checkSignThenDecrypt_RSA1 toy toy_cfg 0 toy_fs [8] [1] [] [3] [4] False) [4] = Some []"
  by (simp add: encryptThenSign_RSA1_def checkSignThenDecrypt_RSA1_def encrypt_setup_def
      decrypt_before_payload_def decrypt_load_keys_def step_defs io_defs toy_defs error_of_def
      output_of_def)

subsection \<open>Cleanup on the error paths of decrypt\<close>

lemma remove_file_gone [simp]: "files (snd (remove_file fs p)) p = None"
  by (simp add: remove_file_def)

lemma cleans_Next [simp]: "cleans (Next v) out"
  by (simp add: cleans_def)

lemma cleans_Throw [simp]: "cleans (Throw x fs) out"
  by (simp add: cleans_def)

lemma cleans_call [simp]: "cleans (call fs r) out"
  by (simp add: cleans_def call_def split: sum.splits)

lemma cleans_remove_and_return [simp]: "cleans (remove_and_return e fs out) out"
  by (simp add: cleans_def remove_and_return_def)

lemma cleans_and_then: "cleans m out \<Longrightarrow> (\<And>v. cleans (f v) out) \<Longrightarrow> cleans (and_then m f) out"
  by (cases m) (simp_all add: cleans_def and_then_def)

lemma cleans_catch_decoding_error:
  "cleans m out \<Longrightarrow> cleans (catch_decoding_error e out m) out"
  by (cases m) (simp_all add: cleans_def catch_decoding_error_def remove_and_return_def)

lemma cleans_decrypt_snoop: "cleans (decrypt_snoop lib cfg fs data_fname out) out"
  unfolding decrypt_snoop_def
  by (intro cleans_catch_decoding_error cleans_and_then cleans_call) (simp split: prod.splits)

lemma cleans_decrypt_headers: "cleans (decrypt_headers lib cfg spk n fs data_fname out) out"
  unfolding decrypt_headers_def Let_def
  by (intro cleans_catch_decoding_error cleans_and_then cleans_call)
     (auto split: prod.splits intro!: cleans_catch_decoding_error cleans_and_then)

lemma cleans_decrypt_validate: "cleans (decrypt_validate lib cfg h fs out) out"
  unfolding decrypt_validate_def Let_def
  by (auto intro!: cleans_and_then)

lemma cleans_decrypt_setup: "cleans (decrypt_setup lib cfg dsk rng ca h fs) out"
  unfolding decrypt_setup_def Let_def
  by (auto intro!: cleans_and_then split: prod.splits)

lemma closed_gone [simp]: "files fs p = None \<Longrightarrow> files (ofstream_close fs p) p = None"
  by (simp add: ofstream_close_def ofstream_flush_def)

lemma before_loop_fails:
  assumes "cleans m out" and "\<forall>v. m \<noteq> Next v"
  shows "failed_without_output
           (map_option (close_outfile out) (map_option (catch_all out) (before_loop m f))) out"
  using assms
  by (cases m)
     (simp_all add: cleans_def catch_all_def before_loop_def failed_without_output_def
        close_outfile_def)

lemma decrypt_headers_Next:
  assumes "decrypt_headers lib cfg spk n fs data_fname out = Next (h, rest)"
  shows "\<exists>input signature.
           files fs data_fname = Some input \<and> unat n \<le> length input
         \<and> ber_header1 lib (take (unat n) input) = Inr h
         \<and> ber_header2 lib (drop (unat n) input) = Inr (signature, rest)
         \<and> pk_verify lib spk (rsa_sign_algo cfg) (take (unat n) input) signature = Inr True"
  using assms
  by (auto simp: decrypt_headers_def open_input_def step_defs Let_def
           split: option.splits sum.splits if_splits prod.splits step.splits)



lemma toy_fields_unfold: "toy_fields (numeral k) b =
     (case toy_get b of
        None \<Rightarrow> None
      | Some (f, r) \<Rightarrow> map_option ((#) f) (toy_fields (pred_numeral k) r))"
  by (simp add: numeral_eq_Suc)

subsection \<open>An empty file name in the header\<close>

text \<open>
  C10. A run of decrypt that has opened its output, loaded its keys, passed the snoop of
  the first two elements and decodes, from the bytes it reads as Header-1, a header whose
  \<^verbatim>\<open>data_filename\<close> element is the empty octet string, returns \<^verbatim>\<open>false\<close>, and no
  file exists at the output path afterwards.
\<close>

theorem decrypt_rejects_empty_filename:
  assumes "open_outfile fs outfilename overwrite = Inr (outfile, fs1)"
      and "decrypt_load_keys lib fs1 sign_pub_key_fname dec_sec_key_fname passphrase
           = Next (sign_pub_key, dec_sec_key)"
      and "decrypt_snoop lib cfg fs1 data_fname outfilename = Next header1_size"
      and "files fs1 data_fname = Some input"
      and "ber_header1 lib (take (unat header1_size) input) = Inr h"
      and "h_filename h = []"
  shows "failed_without_output
           (checkSignThenDecrypt_RSA1 lib cfg rng fs sign_pub_key_fname dec_sec_key_fname passphrase
              data_fname outfilename overwrite) outfilename"
proof -
  let ?hd = "decrypt_headers lib cfg sign_pub_key header1_size fs1 data_fname outfilename"
  let ?m = "and_then ?hd (\<lambda>(h, input).
              and_then (decrypt_validate lib cfg h fs1 outfilename) (\<lambda>cipher_algo.
              and_then (decrypt_setup lib cfg dec_sec_key rng cipher_algo h fs1) (\<lambda>aead.
              Next (aead, h, input))))"
  have validate: "decrypt_validate lib cfg h fs1 outfilename
                  = remove_and_return Unknown_filename fs1 outfilename"
    using assms(6) by (simp add: decrypt_validate_def)
  have not_next: "\<forall>v. ?m \<noteq> Next v"
  proof (cases ?hd)
    case (Next p)
    obtain h' rest where p: "p = (h', rest)" by (cases p)
    from decrypt_headers_Next [OF Next [unfolded p]] assms(4,5) have "h' = h" by auto
    with Next p validate show ?thesis
      by (simp add: and_then_def remove_and_return_def)
  qed (simp_all add: and_then_def)
  have cl: "cleans ?m outfilename"
    by (intro cleans_and_then cleans_decrypt_headers)
       (auto intro!: cleans_and_then cleans_decrypt_validate cleans_decrypt_setup)
  have "decrypt_before_payload lib cfg rng fs1 sign_pub_key_fname dec_sec_key_fname passphrase
          data_fname outfilename = ?m"
    using assms(2,3) by (simp add: decrypt_before_payload_def and_then_def)
  with assms(1) before_loop_fails [OF cl not_next] show ?thesis
    by (simp add: checkSignThenDecrypt_RSA1_def)
qed


theorem decrypt_rejects_empty_filename_witness:
  "failed_without_output
         (checkSignThenDecrypt_RSA1 toy toy_cfg 0 (toy_fs\<lparr>files := (files toy_fs)([4] \<mapsto> msg_empty_filename)\<rparr>)
            [2] [1] [] [4] [5] False) [5]"
proof -
  let ?fs = "toy_fs\<lparr>files := (files toy_fs)([4] \<mapsto> msg_empty_filename)\<rparr>"
  let ?fs1 = "toy_fs\<lparr>files := (files toy_fs)([4] \<mapsto> msg_empty_filename, [5] \<mapsto> [])\<rparr>"
  have a1: "open_outfile ?fs [5] False = Inr (\<lparr>os_path = [5], os_fail = False\<rparr>, ?fs1)"
    by (simp add: io_defs toy_fs_def)
  have a2: "decrypt_load_keys toy ?fs1 [2] [1] [] = Next ([9], [7])"
    by (simp add: decrypt_load_keys_def io_defs toy_fs_def toy_def)
  have a3: "decrypt_snoop toy toy_cfg ?fs1 [4] [5] = Next 34"
    by (simp add: decrypt_snoop_def io_defs step_defs toy_defs msg_empty_filename_def get_uint32_def
        toy_fields_unfold)
  have a4: "files ?fs1 [4] = Some msg_empty_filename"
    by (simp add: toy_fs_def)
  have "map_sum id h_filename (ber_header1 toy (take (unat (34 :: 32 word)) msg_empty_filename)) = Inr []"
    by (simp add: toy_defs msg_empty_filename_def toy_fields_unfold)
  then obtain h where a5: "ber_header1 toy (take (unat (34 :: 32 word)) msg_empty_filename) = Inr h"
    and a6: "h_filename h = []"
    by (cases "ber_header1 toy (take (unat (34 :: 32 word)) msg_empty_filename)") auto
  show ?thesis
    by (rule decrypt_rejects_empty_filename [OF a1 a2 a3 a4 a5 a6])
qed

subsection \<open>The checks of the decoded header\<close>

lemma decrypt_result_of_failure:
  assumes "open_outfile fs outfilename overwrite = Inr (outfile, fs1)"
      and "decrypt_before_payload lib cfg rng fs1 spk_f dsk_f pass data_fname outfilename = m"
  shows "m = Return e fs' \<Longrightarrow>
           checkSignThenDecrypt_RSA1 lib cfg rng fs spk_f dsk_f pass data_fname outfilename overwrite
           = Some (Inl e, ofstream_close fs' outfilename)"
    and "m = Throw x fs' \<Longrightarrow>
           checkSignThenDecrypt_RSA1 lib cfg rng fs spk_f dsk_f pass data_fname outfilename overwrite
           = Some (Inl (Caught_exception x), ofstream_close (snd (remove_file fs' outfilename)) outfilename)"
  using assms
  by (simp_all add: checkSignThenDecrypt_RSA1_def before_loop_def catch_all_def close_outfile_def)

lemma toy_open: "open_outfile (toy_fs_with msg) [5] False = Inr (toy_outfile, toy_fs_opened msg)"
  by (simp add: io_defs toy_fs_def toy_fs_with_def toy_fs_opened_def toy_outfile_def)

lemma toy_keys: "decrypt_load_keys toy (toy_fs_opened msg) [2] [1] [] = Next ([9], [7])"
  by (simp add: decrypt_load_keys_def io_defs toy_fs_def toy_def toy_fs_opened_def)

lemma toy_input: "files (toy_fs_opened msg) [4] = Some msg"
  by (simp add: toy_fs_def toy_fs_opened_def)

text \<open>A run of decrypt whose header checks return \<^verbatim>\<open>false\<close> or throw.\<close>

lemma validation_fails:
  assumes opened: "open_outfile fs outfilename overwrite = Inr (outfile, fs1)"
      and keys: "decrypt_load_keys lib fs1 spk_f dsk_f pass = Next (spk, dsk)"
      and snoop: "decrypt_snoop lib cfg fs1 data_fname outfilename = Next n"
      and headers: "decrypt_headers lib cfg spk n fs1 data_fname outfilename = Next (h, rest)"
  shows "decrypt_validate lib cfg h fs1 outfilename = remove_and_return e fs1 outfilename
         \<Longrightarrow> fails_with
               (checkSignThenDecrypt_RSA1 lib cfg rng fs spk_f dsk_f pass data_fname outfilename overwrite)
               outfilename e"
    and "decrypt_validate lib cfg h fs1 outfilename = Throw x fs1
         \<Longrightarrow> fails_with
               (checkSignThenDecrypt_RSA1 lib cfg rng fs spk_f dsk_f pass data_fname outfilename overwrite)
               outfilename (Caught_exception x)"
proof -
  let ?m = "decrypt_before_payload lib cfg rng fs1 spk_f dsk_f pass data_fname outfilename"
  have m: "?m = and_then (decrypt_validate lib cfg h fs1 outfilename) (\<lambda>cipher_algo.
                  and_then (decrypt_setup lib cfg dsk rng cipher_algo h fs1) (\<lambda>aead.
                  Next (aead, h, rest)))"
    using keys snoop headers by (simp add: decrypt_before_payload_def and_then_def)
  {
    assume "decrypt_validate lib cfg h fs1 outfilename = remove_and_return e fs1 outfilename"
    with m have "?m = Return e (snd (remove_file fs1 outfilename))"
      by (simp add: and_then_def remove_and_return_def)
    from decrypt_result_of_failure(1) [OF opened refl this]
    show "fails_with
            (checkSignThenDecrypt_RSA1 lib cfg rng fs spk_f dsk_f pass data_fname outfilename overwrite)
            outfilename e"
      by (simp add: fails_with_def)
  }
  {
    assume "decrypt_validate lib cfg h fs1 outfilename = Throw x fs1"
    with m have "?m = Throw x fs1" by (simp add: and_then_def)
    from decrypt_result_of_failure(2) [OF opened refl this]
    show "fails_with
            (checkSignThenDecrypt_RSA1 lib cfg rng fs spk_f dsk_f pass data_fname outfilename overwrite)
            outfilename (Caught_exception x)"
      by (simp add: fails_with_def)
  }
qed

text \<open>
  C8, as the claim states it: any mismatch in the five checks makes decrypt fail with a
  specific error. In \<open>msg_genuine\<close>, the first byte of the parameters of
  \<^verbatim>\<open>pk_alg_id\<close> is changed (and the signature made again), so that they no longer
  decode as an algorithm identifier. Decrypt decodes and verifies the header, and then
  returns \<^verbatim>\<open>false\<close> through the outer handler \<^verbatim>\<open>catch (std::exception &)\<close>, with
  the exception of the decoder: line 398 decodes outside the inner handlers, and the
  return is the one the operation has for every exception, as for the rejected tag of a
  message whose last byte is changed.
\<close>

theorem undecodable_hash_identifier_counterexample:
  "decrypt_headers toy toy_cfg [9] 35 (toy_fs_opened (msg_genuine[23 := 9, 61 := 9])) [4] [5]
   = Next (toy_header\<lparr>h_pk_alg_id := \<lparr>oid = [82, 83, 65, 47, 79], parameters = [9, 1, 72, 0]\<rparr>\<rparr>,
           [11, 21, 31, 41, 51, 166])
   \<and> ber_decode_algid toy [9, 1, 72, 0] = Inl Decoding_Error
   \<and> error_of (checkSignThenDecrypt_RSA1 toy toy_cfg 0 (toy_fs_with (msg_genuine[23 := 9, 61 := 9]))
        [2] [1] [] [4] [5] False)
     = Some (Caught_exception Decoding_Error)
   \<and> error_of (checkSignThenDecrypt_RSA1 toy toy_cfg 0 (toy_fs_with (msg_genuine[78 := 167]))
        [2] [1] [] [4] [5] False)
     = Some (Caught_exception Invalid_Authentication_Tag)"
proof -
  have a: "decrypt_headers toy toy_cfg [9] 35 (toy_fs_opened (msg_genuine[23 := 9, 61 := 9])) [4] [5]
   = Next (toy_header\<lparr>h_pk_alg_id := \<lparr>oid = [82, 83, 65, 47, 79], parameters = [9, 1, 72, 0]\<rparr>\<rparr>,
           [11, 21, 31, 41, 51, 166])"
    by (simp add: decrypt_headers_def open_input_def toy_input step_defs Let_def toy_defs
          msg_genuine_def toy_fields_unfold toy_header_def)
  have b: "ber_decode_algid toy [9, 1, 72, 0] = Inl Decoding_Error"
    by (simp add: toy_defs)
  have c: "error_of (checkSignThenDecrypt_RSA1 toy toy_cfg 0 (toy_fs_with (msg_genuine[23 := 9, 61 := 9]))
        [2] [1] [] [4] [5] False) = Some (Caught_exception Decoding_Error)"
    by (simp add: checkSignThenDecrypt_RSA1_def decrypt_before_payload_def decrypt_load_keys_def
          decrypt_snoop_def decrypt_headers_def decrypt_validate_def padding_combo_def get_uint32_def
          step_defs io_defs toy_defs toy_fs_with_def error_of_def msg_genuine_def Let_def
          toy_fields_unfold)
  have d: "error_of (checkSignThenDecrypt_RSA1 toy toy_cfg 0 (toy_fs_with (msg_genuine[78 := 167]))
        [2] [1] [] [4] [5] False) = Some (Caught_exception Invalid_Authentication_Tag)"
    by (simp add: checkSignThenDecrypt_RSA1_def decrypt_before_payload_def decrypt_load_keys_def
          decrypt_snoop_def decrypt_headers_def decrypt_validate_def decrypt_setup_def
          decrypt_payload_def decrypt_or_random_def aead_create_or_throw_def consume_data_def
          after_read_def padding_combo_def eme_name_def get_uint32_def
          step_defs io_defs toy_defs toy_fs_with_def error_of_def msg_genuine_def Let_def
          toy_fields_unfold read_stream.simps upt_rec)
  from a b c d show ?thesis by simp
qed

text \<open>
  C8, amended. In a run of decrypt that has opened its output and loaded its keys, each of
  the five checks of the claim, when it is the first that the input does not pass, makes
  the run return \<^verbatim>\<open>false\<close>, and no file exists at the output path afterwards. The
  error is that of the check, except for a nested hash algorithm identifier that does not
  decode:

  \<^item> a package magic that differs from the expected one: \<open>Unknown_package_magic\<close> when it
    is empty, \<open>Expected_package_magic\<close> otherwise;
  \<^item> in a header that was decoded and verified and has a file name, a signing algorithm
    that differs: \<open>Unknown_signing_algo\<close> when it is empty, \<open>Expected_signing_algo\<close>
    otherwise;
  \<^item> then a \<^verbatim>\<open>pk_alg_id\<close> that does not resolve to \<^verbatim>\<open>"RSA/" + rsa_padding_algo\<close>:
    \<open>Expected_padding_algo\<close>;
  \<^item> then a nested hash algorithm identifier that resolves to another name:
    \<open>Unknown_hash_function\<close> when the name is empty, \<open>Expected_hash_function\<close>
    otherwise; one with parameters: \<open>Unknown_hash_function_parameter\<close>; one that does
    not decode: the exception of the decoder, returned by the outer handler;
  \<^item> then a cipher OID that resolves to another name: \<open>Unknown_cipher_algo\<close> when the
    name is empty, \<open>Expected_cipher_algo\<close> otherwise.
\<close>

theorem decrypt_header_validation:
  assumes opened: "open_outfile fs outfilename overwrite = Inr (outfile, fs1)"
      and keys: "decrypt_load_keys lib fs1 sign_pub_key_fname dec_sec_key_fname passphrase
                 = Next (sign_pub_key, dec_sec_key)"
      and run: "run = checkSignThenDecrypt_RSA1 lib cfg rng fs sign_pub_key_fname dec_sec_key_fname
                        passphrase data_fname outfilename overwrite"
      and pk_name: "pk_name = oid2str_or_empty lib (oid (h_pk_alg_id h))"
      and hash_id: "hash_id = ber_decode_algid lib (parameters (h_pk_alg_id h))"
      and cipher_name: "cipher_name = oid2str_or_empty lib (h_cipher_algo_oid h)"
  shows "(files fs1 data_fname = Some input
          \<and> ber_header1_snoop lib input = Inr (magic, size_buffer)
          \<and> magic \<noteq> package_magic cfg
          \<longrightarrow> fails_with run outfilename
                (if magic = [] then Unknown_package_magic else Expected_package_magic))
       \<and> (decrypt_snoop lib cfg fs1 data_fname outfilename = Next header1_size
          \<and> decrypt_headers lib cfg sign_pub_key header1_size fs1 data_fname outfilename = Next (h, rest)
          \<and> h_filename h \<noteq> []
          \<longrightarrow>
            (h_sign_algo h \<noteq> rsa_sign_algo cfg
             \<longrightarrow> fails_with run outfilename
                   (if h_sign_algo h = [] then Unknown_signing_algo else Expected_signing_algo))
          \<and> (h_sign_algo h = rsa_sign_algo cfg \<and> rsa_sign_algo cfg \<noteq> []
             \<longrightarrow>
               (pk_name \<noteq> padding_combo cfg \<longrightarrow> fails_with run outfilename Expected_padding_algo)
             \<and> (pk_name = padding_combo cfg
                \<longrightarrow>
                  (\<forall>x. hash_id = Inl x \<longrightarrow> fails_with run outfilename (Caught_exception x))
                \<and> (\<forall>a. hash_id = Inr a
                    \<longrightarrow>
                      (oid2str_or_empty lib (oid a) \<noteq> rsa_hash_algo cfg
                       \<longrightarrow> fails_with run outfilename
                             (if oid2str_or_empty lib (oid a) = [] then Unknown_hash_function
                              else Expected_hash_function))
                    \<and> (oid2str_or_empty lib (oid a) = rsa_hash_algo cfg \<and> rsa_hash_algo cfg \<noteq> []
                       \<longrightarrow>
                         (parameters a \<noteq> []
                          \<longrightarrow> fails_with run outfilename Unknown_hash_function_parameter)
                       \<and> (parameters a = [] \<and> cipher_name \<noteq> aead_cipher_algo cfg
                          \<longrightarrow> fails_with run outfilename
                                (if cipher_name = [] then Unknown_cipher_algo
                                 else Expected_cipher_algo)))))))"
proof -
  have magic: "fails_with run outfilename
                 (if magic = [] then Unknown_package_magic else Expected_package_magic)"
    if a: "files fs1 data_fname = Some input \<and> ber_header1_snoop lib input = Inr (magic, size_buffer)
           \<and> magic \<noteq> package_magic cfg"
  proof -
    define e where "e = (if magic = [] then Unknown_package_magic else Expected_package_magic)"
    from a have "decrypt_snoop lib cfg fs1 data_fname outfilename
                 = remove_and_return e fs1 outfilename"
      by (simp add: decrypt_snoop_def open_input_def step_defs e_def)
    with keys
    have "decrypt_before_payload lib cfg rng fs1 sign_pub_key_fname dec_sec_key_fname passphrase
            data_fname outfilename = Return e (snd (remove_file fs1 outfilename))"
      by (simp add: decrypt_before_payload_def and_then_def remove_and_return_def)
    from decrypt_result_of_failure(1) [OF opened refl this]
    show ?thesis by (simp add: fails_with_def e_def run)
  qed
  have checks: "(h_sign_algo h \<noteq> rsa_sign_algo cfg
             \<longrightarrow> fails_with run outfilename
                   (if h_sign_algo h = [] then Unknown_signing_algo else Expected_signing_algo))
          \<and> (h_sign_algo h = rsa_sign_algo cfg \<and> rsa_sign_algo cfg \<noteq> []
             \<longrightarrow>
               (pk_name \<noteq> padding_combo cfg \<longrightarrow> fails_with run outfilename Expected_padding_algo)
             \<and> (pk_name = padding_combo cfg
                \<longrightarrow>
                  (\<forall>x. hash_id = Inl x \<longrightarrow> fails_with run outfilename (Caught_exception x))
                \<and> (\<forall>a. hash_id = Inr a
                    \<longrightarrow>
                      (oid2str_or_empty lib (oid a) \<noteq> rsa_hash_algo cfg
                       \<longrightarrow> fails_with run outfilename
                             (if oid2str_or_empty lib (oid a) = [] then Unknown_hash_function
                              else Expected_hash_function))
                    \<and> (oid2str_or_empty lib (oid a) = rsa_hash_algo cfg \<and> rsa_hash_algo cfg \<noteq> []
                       \<longrightarrow>
                         (parameters a \<noteq> []
                          \<longrightarrow> fails_with run outfilename Unknown_hash_function_parameter)
                       \<and> (parameters a = [] \<and> cipher_name \<noteq> aead_cipher_algo cfg
                          \<longrightarrow> fails_with run outfilename
                                (if cipher_name = [] then Unknown_cipher_algo
                                 else Expected_cipher_algo))))))"
    if b: "decrypt_snoop lib cfg fs1 data_fname outfilename = Next header1_size
           \<and> decrypt_headers lib cfg sign_pub_key header1_size fs1 data_fname outfilename = Next (h, rest)
           \<and> h_filename h \<noteq> []"
  proof -
    note fails = validation_fails [OF opened keys conjunct1 [OF b] conjunct1 [OF conjunct2 [OF b]],
        of _ rng, folded run]
    from b have name: "h_filename h \<noteq> []" by simp
    show ?thesis
      apply (intro conjI impI allI)
            apply (rule fails(1), simp add: decrypt_validate_def name)
           apply (rule fails(1), simp add: decrypt_validate_def name pk_name)
          apply (rule fails(2), simp add: decrypt_validate_def name pk_name hash_id [symmetric] step_defs)
         apply (rule fails(1),
                simp add: decrypt_validate_def name pk_name hash_id [symmetric] step_defs Let_def)
        apply (rule fails(1),
               simp add: decrypt_validate_def name pk_name hash_id [symmetric] step_defs Let_def)
       apply (rule fails(1),
              simp add: decrypt_validate_def name pk_name hash_id [symmetric] step_defs Let_def
                        cipher_name)
      done
  qed
  from magic checks show ?thesis by blast
qed


theorem decrypt_header_validation_witness:
  "fails_with (checkSignThenDecrypt_RSA1 toy toy_cfg 0 (toy_fs_with (msg_genuine[2 := 91]))
       [2] [1] [] [4] [5] False) [5] Expected_package_magic
   \<and> fails_with (checkSignThenDecrypt_RSA1 toy toy_cfg 0 (toy_fs_with (msg_genuine[15 := 70, 53 := 70]))
       [2] [1] [] [4] [5] False) [5] Expected_signing_algo
   \<and> fails_with (checkSignThenDecrypt_RSA1 toy toy_cfg 0 (toy_fs_with (msg_genuine[21 := 80, 59 := 80]))
       [2] [1] [] [4] [5] False) [5] Expected_padding_algo
   \<and> fails_with (checkSignThenDecrypt_RSA1 toy toy_cfg 0 (toy_fs_with (msg_genuine[23 := 9, 61 := 9]))
       [2] [1] [] [4] [5] False) [5] (Caught_exception Decoding_Error)
   \<and> fails_with (checkSignThenDecrypt_RSA1 toy toy_cfg 0 (toy_fs_with (msg_genuine[25 := 73, 63 := 73]))
       [2] [1] [] [4] [5] False) [5] Expected_hash_function
   \<and> fails_with (checkSignThenDecrypt_RSA1 toy toy_cfg 0 (toy_fs_with msg_hash_parameter)
       [2] [1] [] [4] [5] False) [5] Unknown_hash_function_parameter
   \<and> fails_with (checkSignThenDecrypt_RSA1 toy toy_cfg 0 (toy_fs_with (msg_genuine[28 := 68, 66 := 68]))
       [2] [1] [] [4] [5] False) [5] Expected_cipher_algo"
proof -
  let ?payload = "[11, 21, 31, 41, 51, 166] :: bytes"
  note snoop_defs = decrypt_snoop_def open_input_def toy_input step_defs toy_defs msg_genuine_def
    msg_hash_parameter_def toy_fields_unfold get_uint32_def
  note headers_defs = decrypt_headers_def open_input_def toy_input step_defs Let_def toy_defs
    msg_genuine_def msg_hash_parameter_def toy_fields_unfold toy_header_def
  note field_defs = toy_defs toy_header_def padding_combo_def toy_fields_unfold
  have magic: "ber_header1_snoop toy (msg_genuine[2 := 91]) = Inr ([91], [35, 0, 0, 0])"
    by (simp add: toy_defs msg_genuine_def toy_fields_unfold)
  from decrypt_header_validation [OF toy_open [of "msg_genuine[2 := 91]"] toy_keys refl refl refl refl,
         where data_fname = "[4]" and input = "msg_genuine[2 := 91]"
           and magic = "[91]" and size_buffer = "[35, 0, 0, 0]" and cfg = toy_cfg and rng = 0]
    toy_input magic
  have a: "fails_with (checkSignThenDecrypt_RSA1 toy toy_cfg 0 (toy_fs_with (msg_genuine[2 := 91]))
       [2] [1] [] [4] [5] False) [5] Expected_package_magic"
    by (simp add: toy_cfg_def)
  have sn: "decrypt_snoop toy toy_cfg (toy_fs_opened (msg_genuine[15 := 70, 53 := 70])) [4] [5] = Next 35"
    by (simp add: snoop_defs)
  have hd: "decrypt_headers toy toy_cfg [9] 35 (toy_fs_opened (msg_genuine[15 := 70, 53 := 70])) [4] [5]
            = Next (toy_header\<lparr>h_sign_algo := [70]\<rparr>, ?payload)"
    by (simp add: headers_defs)
  from decrypt_header_validation [OF toy_open [of "msg_genuine[15 := 70, 53 := 70]"] toy_keys refl refl refl refl,
         where data_fname = "[4]" and cfg = toy_cfg
           and rng = 0 and header1_size = 35 and h = "toy_header\<lparr>h_sign_algo := [70]\<rparr>"
           and rest = ?payload] sn hd
  have b: "fails_with (checkSignThenDecrypt_RSA1 toy toy_cfg 0 (toy_fs_with (msg_genuine[15 := 70, 53 := 70]))
       [2] [1] [] [4] [5] False) [5] Expected_signing_algo"
    by (simp add: field_defs)
  have sn: "decrypt_snoop toy toy_cfg (toy_fs_opened (msg_genuine[21 := 80, 59 := 80])) [4] [5] = Next 35"
    by (simp add: snoop_defs)
  have hd: "decrypt_headers toy toy_cfg [9] 35 (toy_fs_opened (msg_genuine[21 := 80, 59 := 80])) [4] [5]
            = Next (toy_header\<lparr>h_pk_alg_id := \<lparr>oid = [82, 83, 65, 47, 80], parameters = [3, 1, 72, 0]\<rparr>\<rparr>,
                    ?payload)"
    by (simp add: headers_defs)
  from decrypt_header_validation [OF toy_open [of "msg_genuine[21 := 80, 59 := 80]"] toy_keys refl refl refl refl,
         where data_fname = "[4]" and cfg = toy_cfg
           and rng = 0 and header1_size = 35
           and h = "toy_header\<lparr>h_pk_alg_id := \<lparr>oid = [82, 83, 65, 47, 80], parameters = [3, 1, 72, 0]\<rparr>\<rparr>"
           and rest = ?payload] sn hd
  have c: "fails_with (checkSignThenDecrypt_RSA1 toy toy_cfg 0 (toy_fs_with (msg_genuine[21 := 80, 59 := 80]))
       [2] [1] [] [4] [5] False) [5] Expected_padding_algo"
    by (simp add: field_defs)
  have sn: "decrypt_snoop toy toy_cfg (toy_fs_opened (msg_genuine[23 := 9, 61 := 9])) [4] [5] = Next 35"
    by (simp add: snoop_defs)
  have hd: "decrypt_headers toy toy_cfg [9] 35 (toy_fs_opened (msg_genuine[23 := 9, 61 := 9])) [4] [5]
            = Next (toy_header\<lparr>h_pk_alg_id := \<lparr>oid = [82, 83, 65, 47, 79], parameters = [9, 1, 72, 0]\<rparr>\<rparr>,
                    ?payload)"
    by (simp add: headers_defs)
  from decrypt_header_validation [OF toy_open [of "msg_genuine[23 := 9, 61 := 9]"] toy_keys refl refl refl refl,
         where data_fname = "[4]" and cfg = toy_cfg
           and rng = 0 and header1_size = 35
           and h = "toy_header\<lparr>h_pk_alg_id := \<lparr>oid = [82, 83, 65, 47, 79], parameters = [9, 1, 72, 0]\<rparr>\<rparr>"
           and rest = ?payload] sn hd
  have d: "fails_with (checkSignThenDecrypt_RSA1 toy toy_cfg 0 (toy_fs_with (msg_genuine[23 := 9, 61 := 9]))
       [2] [1] [] [4] [5] False) [5] (Caught_exception Decoding_Error)"
    by (simp add: field_defs)
  have sn: "decrypt_snoop toy toy_cfg (toy_fs_opened (msg_genuine[25 := 73, 63 := 73])) [4] [5] = Next 35"
    by (simp add: snoop_defs)
  have hd: "decrypt_headers toy toy_cfg [9] 35 (toy_fs_opened (msg_genuine[25 := 73, 63 := 73])) [4] [5]
            = Next (toy_header\<lparr>h_pk_alg_id := \<lparr>oid = [82, 83, 65, 47, 79], parameters = [3, 1, 73, 0]\<rparr>\<rparr>,
                    ?payload)"
    by (simp add: headers_defs)
  from decrypt_header_validation [OF toy_open [of "msg_genuine[25 := 73, 63 := 73]"] toy_keys refl refl refl refl,
         where data_fname = "[4]" and cfg = toy_cfg
           and rng = 0 and header1_size = 35
           and h = "toy_header\<lparr>h_pk_alg_id := \<lparr>oid = [82, 83, 65, 47, 79], parameters = [3, 1, 73, 0]\<rparr>\<rparr>"
           and rest = ?payload] sn hd
  have e: "fails_with (checkSignThenDecrypt_RSA1 toy toy_cfg 0 (toy_fs_with (msg_genuine[25 := 73, 63 := 73]))
       [2] [1] [] [4] [5] False) [5] Expected_hash_function"
    by (simp add: field_defs)
  have sn: "decrypt_snoop toy toy_cfg (toy_fs_opened msg_hash_parameter) [4] [5] = Next 36"
    by (simp add: snoop_defs)
  have hd: "decrypt_headers toy toy_cfg [9] 36 (toy_fs_opened msg_hash_parameter) [4] [5]
            = Next (toy_header\<lparr>h_header1_size_buffer := [36, 0, 0, 0],
                      h_pk_alg_id := \<lparr>oid = [82, 83, 65, 47, 79], parameters = [4, 1, 72, 1, 9]\<rparr>\<rparr>,
                    ?payload)"
    by (simp add: headers_defs)
  from decrypt_header_validation [OF toy_open [of msg_hash_parameter] toy_keys refl refl refl refl,
         where data_fname = "[4]" and cfg = toy_cfg
           and rng = 0 and header1_size = 36
           and h = "toy_header\<lparr>h_header1_size_buffer := [36, 0, 0, 0],
                      h_pk_alg_id := \<lparr>oid = [82, 83, 65, 47, 79], parameters = [4, 1, 72, 1, 9]\<rparr>\<rparr>"
           and rest = ?payload] sn hd
  have f: "fails_with (checkSignThenDecrypt_RSA1 toy toy_cfg 0 (toy_fs_with msg_hash_parameter)
       [2] [1] [] [4] [5] False) [5] Unknown_hash_function_parameter"
    by (simp add: field_defs)
  have sn: "decrypt_snoop toy toy_cfg (toy_fs_opened (msg_genuine[28 := 68, 66 := 68])) [4] [5] = Next 35"
    by (simp add: snoop_defs)
  have hd: "decrypt_headers toy toy_cfg [9] 35 (toy_fs_opened (msg_genuine[28 := 68, 66 := 68])) [4] [5]
            = Next (toy_header\<lparr>h_cipher_algo_oid := [68]\<rparr>, ?payload)"
    by (simp add: headers_defs)
  from decrypt_header_validation [OF toy_open [of "msg_genuine[28 := 68, 66 := 68]"] toy_keys refl refl refl refl,
         where data_fname = "[4]" and cfg = toy_cfg
           and rng = 0 and header1_size = 35 and h = "toy_header\<lparr>h_cipher_algo_oid := [68]\<rparr>"
           and rest = ?payload] sn hd
  have g: "fails_with (checkSignThenDecrypt_RSA1 toy toy_cfg 0 (toy_fs_with (msg_genuine[28 := 68, 66 := 68]))
       [2] [1] [] [4] [5] False) [5] Expected_cipher_algo"
    by (simp add: field_defs)
  from a b c d e f g show ?thesis by simp
qed

subsection \<open>The signature over the bytes read as Header-1\<close>

lemmas encrypt_defs = encryptThenSign_RSA1_def encrypt_setup_def encrypt_header1_def
  encrypt_header1_bytes_def encrypt_headers_def encrypt_payload_def consume_data_def after_read_def
  padding_combo_def eme_name_def put_uint32_def

lemmas decrypt_defs = checkSignThenDecrypt_RSA1_def decrypt_before_payload_def decrypt_load_keys_def
  decrypt_snoop_def decrypt_headers_def decrypt_validate_def decrypt_setup_def decrypt_payload_def
  decrypt_or_random_def aead_create_or_throw_def consume_data_def after_read_def
  padding_combo_def eme_name_def get_uint32_def


lemma decrypt_snoop_Return:
  "decrypt_snoop lib cfg fs data_fname out = Return e fs' \<Longrightarrow> is_header_error e"
  by (auto simp: decrypt_snoop_def open_input_def step_defs
           split: option.splits sum.splits prod.splits if_splits step.splits)

lemma decrypt_headers_Return:
  "decrypt_headers lib cfg spk n fs data_fname out = Return e fs' \<Longrightarrow> is_header_error e"
  by (auto simp: decrypt_headers_def open_input_def step_defs Let_def
           split: option.splits sum.splits prod.splits if_splits step.splits)

lemma decrypt_result_of_failure':
  assumes "open_outfile fs outfilename overwrite = Inr (outfile, fs1)"
      and "cleans (decrypt_before_payload lib cfg rng fs1 spk_f dsk_f pass data_fname outfilename) outfilename"
      and "case decrypt_before_payload lib cfg rng fs1 spk_f dsk_f pass data_fname outfilename of
             Next v \<Rightarrow> False | Return e fs' \<Rightarrow> P e | Throw x fs' \<Rightarrow> P (Caught_exception x)"
  shows "failed_without_output
           (checkSignThenDecrypt_RSA1 lib cfg rng fs spk_f dsk_f pass data_fname outfilename overwrite)
           outfilename
         \<and> (case error_of
               (checkSignThenDecrypt_RSA1 lib cfg rng fs spk_f dsk_f pass data_fname outfilename overwrite) of
              None \<Rightarrow> False | Some e \<Rightarrow> P e)"
  using assms
  by (cases "decrypt_before_payload lib cfg rng fs1 spk_f dsk_f pass data_fname outfilename")
     (simp_all add: checkSignThenDecrypt_RSA1_def before_loop_def catch_all_def cleans_def
        failed_without_output_def error_of_def close_outfile_def)

lemma cleans_decrypt_before_payload:
  assumes "decrypt_load_keys lib fs1 spk_f dsk_f pass = Next (spk, dsk)"
  shows "cleans (decrypt_before_payload lib cfg rng fs1 spk_f dsk_f pass data_fname out) out"
  using assms unfolding decrypt_before_payload_def
  by (auto simp: and_then_def [of "Next v" for v]
      intro!: cleans_and_then cleans_decrypt_snoop cleans_decrypt_headers
        cleans_decrypt_validate cleans_decrypt_setup)


text \<open>
  C6, as the claim states it: flipping any single bit of the Header-1 byte image makes
  decrypt fail with the signature mismatch. The toy encrypt writes \<open>msg_genuine\<close>,
  which decrypts to the plaintext. With the lowest bit of its byte 2 flipped (inside the
  first element of Header-1, the package magic) and Header-2 untouched, decrypt fails in
  the snoop with the error for the package magic, before the signature is looked at.
\<close>

theorem header_bit_flip_counterexample:
  "output_of (encryptThenSign_RSA1 toy toy_cfg 0 toy_fs [1] [2] [] [3] [4] False) [4] = Some msg_genuine
   \<and> output_of (checkSignThenDecrypt_RSA1 toy toy_cfg 0 (toy_fs_with msg_genuine)
        [2] [1] [] [4] [5] False) [5] = Some [10, 20, 30, 40, 50]
   \<and> error_of (checkSignThenDecrypt_RSA1 toy toy_cfg 0
        (toy_fs_with (msg_genuine[2 := msg_genuine ! 2 XOR 1])) [2] [1] [] [4] [5] False)
      = Some Expected_package_magic
   \<and> Expected_package_magic \<noteq> Signature_mismatch"
proof -
  have a: "output_of (encryptThenSign_RSA1 toy toy_cfg 0 toy_fs [1] [2] [] [3] [4] False) [4]
           = Some msg_genuine"
    by (simp add: encrypt_defs step_defs io_defs toy_defs output_of_def msg_genuine_def Let_def
        read_stream.simps upt_rec)
  have b: "output_of (checkSignThenDecrypt_RSA1 toy toy_cfg 0 (toy_fs_with msg_genuine)
             [2] [1] [] [4] [5] False) [5] = Some [10, 20, 30, 40, 50]"
    by (simp add: decrypt_defs step_defs io_defs toy_defs toy_fs_with_def output_of_def
        msg_genuine_def Let_def toy_fields_unfold read_stream.simps upt_rec)
  have c: "error_of (checkSignThenDecrypt_RSA1 toy toy_cfg 0
             (toy_fs_with (msg_genuine[2 := msg_genuine ! 2 XOR 1])) [2] [1] [] [4] [5] False)
           = Some Expected_package_magic"
    by (simp add: decrypt_defs step_defs io_defs toy_defs toy_fs_with_def error_of_def
        msg_genuine_def Let_def toy_fields_unfold)
  from a b c show ?thesis by simp
qed


text \<open>
  C6, amended. The verifier is given the bytes read from the input as Header-1
  (\<open>take (unat n) input\<close>) and the signature decoded from the bytes behind them. A run
  in which that check does not accept, as after a change of the Header-1 image under a
  sound signature scheme, returns \<^verbatim>\<open>false\<close> at one of the steps up to the signature
  check, never reaches the read loop that writes the payload, and leaves no file at the
  output path. The error is the signature mismatch when the snoop and the decoding of both
  headers succeed and the check answers no.
\<close>

theorem signature_checked_before_payload:
  assumes opened: "open_outfile fs outfilename overwrite = Inr (outfile, fs1)"
      and keys: "decrypt_load_keys lib fs1 sign_pub_key_fname dec_sec_key_fname passphrase
                 = Next (sign_pub_key, dec_sec_key)"
      and input: "files fs1 data_fname = Some input"
      and reject: "\<And>n s r. decrypt_snoop lib cfg fs1 data_fname outfilename = Next n
                     \<Longrightarrow> ber_header2 lib (drop (unat n) input) = Inr (s, r)
                     \<Longrightarrow> pk_verify lib sign_pub_key (rsa_sign_algo cfg) (take (unat n) input) s \<noteq> Inr True"
  shows "failed_without_output
           (checkSignThenDecrypt_RSA1 lib cfg rng fs sign_pub_key_fname dec_sec_key_fname passphrase
              data_fname outfilename overwrite) outfilename
       \<and> (case error_of
             (checkSignThenDecrypt_RSA1 lib cfg rng fs sign_pub_key_fname dec_sec_key_fname passphrase
                data_fname outfilename overwrite) of
            None \<Rightarrow> False | Some e \<Rightarrow> is_header_error e)
       \<and> (case decrypt_before_payload lib cfg rng fs1 sign_pub_key_fname dec_sec_key_fname passphrase
                  data_fname outfilename of
            Next v \<Rightarrow> False | _ \<Rightarrow> True)
       \<and> (decrypt_snoop lib cfg fs1 data_fname outfilename = Next header1_size
            \<and> unat header1_size \<le> length input
            \<and> ber_header1 lib (take (unat header1_size) input) = Inr h
            \<and> ber_header2 lib (drop (unat header1_size) input) = Inr (signature, rest)
            \<and> pk_verify lib sign_pub_key (rsa_sign_algo cfg) (take (unat header1_size) input) signature
                = Inr False
          \<longrightarrow> error_of
                (checkSignThenDecrypt_RSA1 lib cfg rng fs sign_pub_key_fname dec_sec_key_fname passphrase
                   data_fname outfilename overwrite) = Some Signature_mismatch)"
proof -
  let ?R = "checkSignThenDecrypt_RSA1 lib cfg rng fs sign_pub_key_fname dec_sec_key_fname passphrase
              data_fname outfilename overwrite"
  let ?m = "decrypt_before_payload lib cfg rng fs1 sign_pub_key_fname dec_sec_key_fname passphrase
              data_fname outfilename"
  let ?sn = "decrypt_snoop lib cfg fs1 data_fname outfilename"
  have m: "?m = and_then ?sn (\<lambda>header1_size.
     and_then (decrypt_headers lib cfg sign_pub_key header1_size fs1 data_fname outfilename)
       (\<lambda>(h, input).
     and_then (decrypt_validate lib cfg h fs1 outfilename) (\<lambda>cipher_algo.
     and_then (decrypt_setup lib cfg dec_sec_key rng cipher_algo h fs1) (\<lambda>aead.
     Next (aead, h, input)))))"
    using keys by (simp add: decrypt_before_payload_def and_then_def)
  have headers: "case decrypt_headers lib cfg sign_pub_key n fs1 data_fname outfilename of
                   Next v \<Rightarrow> False | Return e fs' \<Rightarrow> is_header_error e | Throw x fs' \<Rightarrow> True"
    if "?sn = Next n" for n
  proof (cases "decrypt_headers lib cfg sign_pub_key n fs1 data_fname outfilename")
    case (Next v)
    obtain h' rest' where "v = (h', rest')" by (cases v)
    with Next decrypt_headers_Next [of lib cfg sign_pub_key n fs1 data_fname outfilename h' rest']
      input reject [OF that]
    show ?thesis by auto
  next
    case (Return e fs')
    then show ?thesis by (simp add: decrypt_headers_Return)
  qed simp
  have stop: "case ?m of Next v \<Rightarrow> False | Return e fs' \<Rightarrow> is_header_error e
              | Throw x fs' \<Rightarrow> is_header_error (Caught_exception x)"
  proof (cases ?sn)
    case (Next n)
    with headers [OF Next] m show ?thesis
      by (cases "decrypt_headers lib cfg sign_pub_key n fs1 data_fname outfilename")
         (simp_all add: and_then_def)
  next
    case (Return e fs')
    with m decrypt_snoop_Return [OF Return] show ?thesis by (simp add: and_then_def)
  next
    case (Throw x fs')
    with m show ?thesis by (simp add: and_then_def)
  qed
  note res = decrypt_result_of_failure' [OF opened cleans_decrypt_before_payload [OF keys],
      where P = is_header_error, OF stop]
  have early: "case ?m of Next v \<Rightarrow> False | _ \<Rightarrow> True"
    using stop by (cases ?m) simp_all
  have sig: "error_of ?R = Some Signature_mismatch"
    if "?sn = Next header1_size \<and> unat header1_size \<le> length input
        \<and> ber_header1 lib (take (unat header1_size) input) = Inr h
        \<and> ber_header2 lib (drop (unat header1_size) input) = Inr (signature, rest)
        \<and> pk_verify lib sign_pub_key (rsa_sign_algo cfg) (take (unat header1_size) input) signature
            = Inr False"
  proof -
    from that input
    have "decrypt_headers lib cfg sign_pub_key header1_size fs1 data_fname outfilename
          = remove_and_return Signature_mismatch fs1 outfilename"
      by (simp add: decrypt_headers_def open_input_def step_defs Let_def)
    with that m have "?m = Return Signature_mismatch (snd (remove_file fs1 outfilename))"
      by (simp add: and_then_def remove_and_return_def)
    with opened show ?thesis
      by (simp add: checkSignThenDecrypt_RSA1_def before_loop_def catch_all_def error_of_def
            close_outfile_def)
  qed
  from res early sig show ?thesis by blast
qed

theorem signature_checked_before_payload_witness:
  "failed_without_output
     (checkSignThenDecrypt_RSA1 toy toy_cfg 0 (toy_fs_with (msg_genuine[15 := msg_genuine ! 15 XOR 1]))
        [2] [1] [] [4] [5] False) [5]
   \<and> error_of
     (checkSignThenDecrypt_RSA1 toy toy_cfg 0 (toy_fs_with (msg_genuine[15 := msg_genuine ! 15 XOR 1]))
        [2] [1] [] [4] [5] False) = Some Signature_mismatch"
proof -
  let ?msg = "msg_genuine[15 := msg_genuine ! 15 XOR 1]"
  have sn: "decrypt_snoop toy toy_cfg (toy_fs_opened ?msg) [4] [5] = Next 35"
    by (simp add: decrypt_snoop_def open_input_def toy_input step_defs
          toy_defs msg_genuine_def toy_fields_unfold get_uint32_def)
  have h2: "ber_header2 toy (drop (unat (35 :: 32 word)) ?msg)
            = Inr (9 # take 35 msg_genuine, [11, 21, 31, 41, 51, 166])"
    by (simp add: toy_defs msg_genuine_def)
  have vf: "pk_verify toy [9] (rsa_sign_algo toy_cfg) (take (unat (35 :: 32 word)) ?msg)
              (9 # take 35 msg_genuine) = Inr False"
    by (simp add: toy_defs msg_genuine_def)
  have h1: "ber_header1 toy (take (unat (35 :: 32 word)) ?msg) = Inr (toy_header\<lparr>h_sign_algo := [68]\<rparr>)"
    by (simp add: toy_defs msg_genuine_def toy_fields_unfold toy_header_def)
  have len: "unat (35 :: 32 word) \<le> length ?msg"
    by (simp add: msg_genuine_def)
  have reject: "pk_verify toy [9] (rsa_sign_algo toy_cfg) (take (unat n) ?msg) s \<noteq> Inr True"
    if "decrypt_snoop toy toy_cfg (toy_fs_opened ?msg) [4] [5] = Next n"
      and "ber_header2 toy (drop (unat n) ?msg) = Inr (s, r)" for n s r
    using that sn h2 vf by auto
  from signature_checked_before_payload [OF toy_open toy_keys toy_input reject,
      where header1_size = 35 and h = "toy_header\<lparr>h_sign_algo := [68]\<rparr>"
        and signature = "9 # take 35 msg_genuine" and rest = "[11, 21, 31, 41, 51, 166]"
        and rng = 0]
    sn h2 vf h1 len
  show ?thesis by simp
qed

subsection \<open>The read loop\<close>

lemma writingI:
  assumes "os_path outfile = p" and "unflushed fs0 p = []"
      and "fs = fs0\<lparr>files := (files fs0)(p \<mapsto> written),
                     unflushed := (unflushed fs0)(p := pending)\<rparr>"
      and "if os_fail outfile
           then capacity fs0 < length (pre @ acc) \<and> pending = []
           else written @ pending = pre @ acc \<and> length written \<le> capacity fs0"
  shows "writing p pre fs0 (outfile, fs) acc"
  unfolding writing_def using assms by (simp only: prod.case) blast

lemma writing_write:
  assumes "writing p pre fs0 (outfile, fs) acc"
  shows "writing p pre fs0 (ofstream_write outfile fs out) (acc @ out)"
proof -
  from assms obtain written pending where
    p: "os_path outfile = p" and u: "unflushed fs0 p = []"
    and fs: "fs = fs0\<lparr>files := (files fs0)(p \<mapsto> written),
                      unflushed := (unflushed fs0)(p := pending)\<rparr>"
    and st: "if os_fail outfile
             then capacity fs0 < length (pre @ acc) \<and> pending = []
             else written @ pending = pre @ acc \<and> length written \<le> capacity fs0"
    by (auto simp: writing_def)
  show ?thesis
  proof (cases "os_fail outfile")
    case True
    then have w: "ofstream_write outfile fs out = (outfile, fs)"
      by (simp add: ofstream_write_def)
    from True st have "capacity fs0 < length (pre @ acc @ out) \<and> pending = []" by simp
    with True show ?thesis
      unfolding w by (intro writingI [OF p u fs]) simp
  next
    case good: False
    with st have eq: "written @ pending = pre @ acc" and le: "length written \<le> capacity fs0"
      by simp_all
    from eq have eq': "written @ pending @ out = pre @ acc @ out"
      by (metis append.assoc)
    show ?thesis
    proof (cases "length (pending @ out) \<le> stream_buffer fs0")
      case True
      with good p have w: "ofstream_write outfile fs out
          = (outfile, fs0\<lparr>files := (files fs0)(p \<mapsto> written),
                            unflushed := (unflushed fs0)(p := pending @ out)\<rparr>)"
        by (simp add: ofstream_write_def Let_def fs)
      show ?thesis
        unfolding w using good eq' le by (intro writingI [OF p u refl]) simp
    next
      case False
      from eq' have len: "length written + (length pending + length out)
                          = length pre + (length acc + length out)"
        by (metis length_append)
      from False good p have w: "ofstream_write outfile fs out
          = (outfile\<lparr>os_fail := \<not> length written + length (pending @ out) \<le> capacity fs0\<rparr>,
             fs0\<lparr>files := (files fs0)
                       (p \<mapsto> written @ take (capacity fs0 - length written) (pending @ out)),
                   unflushed := (unflushed fs0)(p := [])\<rparr>)"
        by (simp add: ofstream_write_def ofstream_flush_def Let_def fs)
      show ?thesis
      proof (cases "length written + length (pending @ out) \<le> capacity fs0")
        case True
        with eq' show ?thesis
          unfolding w by (intro writingI [OF _ u refl]) (simp_all add: p)
      next
        case over: False
        with len have "capacity fs0 < length (pre @ acc @ out)" by simp
        with over show ?thesis
          unfolding w by (intro writingI [OF _ u refl]) (simp_all add: p)
      qed
    qed
  qed
qed

lemma sink_step_Inl:
  "aead_sink lib d f (aead, acc) = Inl x \<Longrightarrow> consume_data lib d f (aead, outfile, fs) = Inl x"
  by (auto simp: aead_sink_def consume_data_def split: if_splits sum.splits prod.splits)

lemma sink_step_Inr:
  assumes "aead_sink lib d f (aead, acc) = Inr (aead', acc')"
      and "writing p pre fs0 (outfile, fs) acc"
  shows "\<exists>outfile' fs'. consume_data lib d f (aead, outfile, fs) = Inr (aead', outfile', fs')
            \<and> writing p pre fs0 (outfile', fs') acc'"
proof -
  from assms(1) obtain out where acc': "acc' = acc @ out"
    and cd: "consume_data lib d f (aead, outfile, fs)
             = Inr (aead', fst (ofstream_write outfile fs out), snd (ofstream_write outfile fs out))"
    by (auto simp: aead_sink_def consume_data_def split: if_splits sum.splits prod.splits)
  from writing_write [OF assms(2), of out] acc' cd show ?thesis
    by (cases "ofstream_write outfile fs out") auto
qed

lemma read_stream_writes:
  assumes "writing p pre fs0 (outfile, fs) acc"
  shows "case read_stream n input (aead_sink lib) t (aead, acc) of
           None \<Rightarrow> read_stream n input (consume_data lib) t (aead, outfile, fs) = None
         | Some (Inl (x, (a, acc'))) \<Rightarrow>
             (\<exists>outfile' fs'. read_stream n input (consume_data lib) t (aead, outfile, fs)
                                = Some (Inl (x, (a, outfile', fs')))
                              \<and> writing p pre fs0 (outfile', fs') acc')
         | Some (Inr (t', (a, acc'))) \<Rightarrow>
             (\<exists>outfile' fs'. read_stream n input (consume_data lib) t (aead, outfile, fs)
                                = Some (Inr (t', (a, outfile', fs')))
                              \<and> writing p pre fs0 (outfile', fs') acc')"
  using assms
proof (induction n input "aead_sink lib" t "(aead, acc)" arbitrary: aead acc outfile fs
       rule: read_stream.induct)
  case (1 n input t)
  show ?case
  proof (cases "n = 0")
    case True
    then show ?thesis by (simp add: read_stream.simps)
  next
    case n: False
    let ?d = "take n input" and ?f = "length input < n"
    show ?thesis
    proof (cases "aead_sink lib ?d ?f (aead, acc)")
      case (Inl x)
      with n sink_step_Inl [OF Inl, of outfile fs] "1.prems" show ?thesis
        by (subst (1 2) read_stream.simps) (auto simp: Let_def)
    next
      case (Inr s')
      obtain aead' acc' where s': "s' = (aead', acc')" by (cases s')
      from sink_step_Inr [OF Inr [unfolded s'] "1.prems"]
      obtain outfile' fs' where cd: "consume_data lib ?d ?f (aead, outfile, fs) = Inr (aead', outfile', fs')"
        and w: "writing p pre fs0 (outfile', fs') acc'" by blast
      show ?thesis
      proof (cases ?f)
        case True
        with n Inr s' cd w show ?thesis
          by (subst (1 2) read_stream.simps) (auto simp: Let_def)
      next
        case False
        from "1.hyps" [OF n refl refl Inr [unfolded s'] False w]
        have ih: "case read_stream n (drop n input) (aead_sink lib) (t + int (length ?d)) (aead', acc') of
           None \<Rightarrow> read_stream n (drop n input) (consume_data lib) (t + int (length ?d)) (aead', outfile', fs') = None
         | Some (Inl (x, (a, acc'))) \<Rightarrow>
             (\<exists>outfile'a fs'a. read_stream n (drop n input) (consume_data lib) (t + int (length ?d)) (aead', outfile', fs')
                                = Some (Inl (x, (a, outfile'a, fs'a)))
                              \<and> writing p pre fs0 (outfile'a, fs'a) acc')
         | Some (Inr (t', (a, acc'))) \<Rightarrow>
             (\<exists>outfile'a fs'a. read_stream n (drop n input) (consume_data lib) (t + int (length ?d)) (aead', outfile', fs')
                                = Some (Inr (t', (a, outfile'a, fs'a)))
                              \<and> writing p pre fs0 (outfile'a, fs'a) acc')" .
        have l: "read_stream n input (aead_sink lib) t (aead, acc)
                 = read_stream n (drop n input) (aead_sink lib) (t + int (length ?d)) (aead', acc')"
          using n Inr s' False by (subst read_stream.simps) (simp add: Let_def)
        have r: "read_stream n input (consume_data lib) t (aead, outfile, fs)
                 = read_stream n (drop n input) (consume_data lib) (t + int (length ?d)) (aead', outfile', fs')"
          using n cd False by (subst read_stream.simps) (simp add: Let_def)
        from ih show ?thesis unfolding l r .
      qed
    qed
  qed
qed

lemma read_stream_total:
  "read_stream n input sink t s = Some (Inr (t', s')) \<Longrightarrow> t \<le> t'"
proof (induction n input sink t s rule: read_stream.induct)
  case (1 n input sink t s)
  show ?case
  proof (cases "n = 0")
    case True
    with "1.prems" show ?thesis by (simp add: read_stream.simps)
  next
    case n: False
    show ?thesis
    proof (cases "sink (take n input) (length input < n) s")
      case (Inl x)
      with n "1.prems" show ?thesis by (subst (asm) read_stream.simps) (simp add: Let_def)
    next
      case (Inr s1)
      show ?thesis
      proof (cases "length input < n")
        case True
        with n Inr "1.prems" show ?thesis by (subst (asm) read_stream.simps) (simp add: Let_def)
      next
        case False
        with n Inr "1.prems"
        have "read_stream n (drop n input) sink (t + int (length (take n input))) s1 = Some (Inr (t', s'))"
          by (subst (asm) read_stream.simps) (simp add: Let_def)
        from "1.IH" [OF n refl refl Inr False this] show ?thesis by simp
      qed
    qed
  qed
qed


text \<open>What the file system is after the return: the destructor of the stream has run.\<close>

lemma writing_removed:
  assumes "writing p pre fs0 (outfile, fs) acc"
  shows "ofstream_close (snd (remove_file fs p)) p = fs0\<lparr>files := (files fs0)(p := None)\<rparr>"
proof -
  from assms obtain written pending where
    u: "unflushed fs0 p = []"
    and fs: "fs = fs0\<lparr>files := (files fs0)(p \<mapsto> written),
                      unflushed := (unflushed fs0)(p := pending)\<rparr>"
    by (auto simp: writing_def)
  from u have "(unflushed fs0)(p := []) = unflushed fs0" by auto
  then show ?thesis
    by (simp add: fs remove_file_def ofstream_close_def ofstream_flush_def)
qed

lemma writing_closed:
  assumes "writing p pre fs0 (outfile, fs) acc" and "\<not> os_fail outfile"
  shows "ofstream_close fs p = fs0\<lparr>files := (files fs0)(p \<mapsto> take (capacity fs0) (pre @ acc))\<rparr>"
proof -
  from assms obtain written pending where
    u: "unflushed fs0 p = []"
    and fs: "fs = fs0\<lparr>files := (files fs0)(p \<mapsto> written),
                      unflushed := (unflushed fs0)(p := pending)\<rparr>"
    and eq: "written @ pending = pre @ acc" and le: "length written \<le> capacity fs0"
    by (auto simp: writing_def)
  from u have idem: "(unflushed fs0)(p := []) = unflushed fs0" by auto
  from le have "written @ take (capacity fs0 - length written) pending
                = take (capacity fs0) (written @ pending)" by simp
  with eq have "written @ take (capacity fs0 - length written) pending = take (capacity fs0) (pre @ acc)"
    by simp
  with idem show ?thesis
    by (simp add: fs ofstream_close_def ofstream_flush_def)
qed

lemma writing_failed:
  "writing p pre fs0 (outfile, fs) acc \<Longrightarrow> os_fail outfile \<Longrightarrow> capacity fs0 < length (pre @ acc)"
  by (auto simp: writing_def)

text \<open>The read loop of both operations, in terms of what the AEAD produces. When the
  bytes outgrow the capacity, either a write has found that out, or the destructor has,
  and then the run has returned \<^verbatim>\<open>true\<close> with a file that is cut off.\<close>

lemma payload_loop:
  assumes w: "writing p pre fs0 (outfile, fs) []"
      and run: "run = map_option (close_outfile p) (map_option (catch_all p)
                  (map_option (after_read p r)
                     (read_stream n input (consume_data lib) 0 (aead, outfile, fs))))"
  shows "case aead_stream lib n aead input of
           None \<Rightarrow> run = None
         | Some (Inl x) \<Rightarrow>
             run = Some (Inl (Caught_exception x), fs0\<lparr>files := (files fs0)(p := None)\<rparr>)
         | Some (Inr out) \<Rightarrow>
             run = Some (Inr r, fs0\<lparr>files := (files fs0)(p \<mapsto> take (capacity fs0) (pre @ out))\<rparr>)
             \<or> (capacity fs0 < length (pre @ out)
                \<and> run = Some (Inl Output_file_write_failed, fs0\<lparr>files := (files fs0)(p := None)\<rparr>))"
proof (cases "read_stream n input (aead_sink lib) 0 (aead, [])")
  case None
  with read_stream_writes [OF w, of n input lib 0 aead] show ?thesis
    by (simp add: aead_stream_def run)
next
  case (Some res)
  show ?thesis
  proof (cases res)
    case (Inl xs)
    obtain x a acc' where xs: "xs = (x, a, acc')" by (cases xs)
    from read_stream_writes [OF w, of n input lib 0 aead] Some Inl xs
    obtain outfile' fs' where
      rs: "read_stream n input (consume_data lib) 0 (aead, outfile, fs) = Some (Inl (x, (a, outfile', fs')))"
      and w': "writing p pre fs0 (outfile', fs') acc'" by auto
    from Some Inl xs rs writing_removed [OF w'] show ?thesis
      by (simp add: aead_stream_def after_read_def catch_all_def close_outfile_def run)
  next
    case (Inr ts)
    obtain t' a acc' where ts: "ts = (t', a, acc')" by (cases ts)
    from read_stream_writes [OF w, of n input lib 0 aead] Some Inr ts
    obtain outfile' fs' where
      rs: "read_stream n input (consume_data lib) 0 (aead, outfile, fs) = Some (Inr (t', (a, outfile', fs')))"
      and w': "writing p pre fs0 (outfile', fs') acc'" by auto
    from read_stream_total [OF rs] have t': "\<not> 0 > t'" by simp
    show ?thesis
    proof (cases "os_fail outfile'")
      case True
      with Some Inr ts rs t' writing_removed [OF w'] writing_failed [OF w' True] show ?thesis
        by (simp add: aead_stream_def after_read_def catch_all_def remove_and_return_def
              close_outfile_def run)
    next
      case False
      with Some Inr ts rs t' writing_closed [OF w' False] show ?thesis
        by (simp add: aead_stream_def after_read_def catch_all_def close_outfile_def run)
    qed
  qed
qed

text \<open>Two runs of the toy encrypt on a file system that has room for 50 of the 79 bytes
  of the message. With the buffer of 8192 bytes no write reaches the file before the
  destructor: encrypt returns \<^verbatim>\<open>true\<close> and leaves the first 50 bytes. Without a
  buffer the write of Header-2 fails, and encrypt returns \<^verbatim>\<open>false\<close> and removes the
  output.\<close>

lemma write_failure_unnoticed:
  "encryptThenSign_RSA1 toy toy_cfg 0 (toy_fs\<lparr>capacity := 50\<rparr>) [1] [2] [] [3] [4] False
   = Some (Inr (), toy_fs\<lparr>capacity := 50, files := (files toy_fs)([4] \<mapsto> take 50 msg_genuine)\<rparr>)"
  by (simp add: encrypt_defs step_defs io_defs toy_defs msg_genuine_def Let_def
      read_stream.simps upt_rec)

lemma write_failure_noticed:
  "encryptThenSign_RSA1 toy toy_cfg 0 (toy_fs\<lparr>capacity := 50, stream_buffer := 0\<rparr>)
     [1] [2] [] [3] [4] False
   = Some (Inl Output_file_write_failed, toy_fs\<lparr>capacity := 50, stream_buffer := 0\<rparr>)"
  by (simp add: encrypt_defs step_defs io_defs toy_defs Let_def read_stream.simps upt_rec
      fun_upd_idem_iff)

subsection \<open>Runs of encrypt\<close>

lemma open_outfile_writing:
  assumes "open_outfile fs p ow = Inr (outfile, fs1)"
  shows "writing p [] fs1 (outfile, fs1) []"
proof -
  from assms have o: "os_path outfile = p" "\<not> os_fail outfile"
    and u: "unflushed fs1 p = []" and f: "files fs1 p = Some []"
    by (auto simp: open_outfile_def file_exists_def remove_file_def ofstream_open_def
                   Let_def split: if_splits)
  from u f have "fs1 = fs1\<lparr>files := (files fs1)(p \<mapsto> []), unflushed := (unflushed fs1)(p := [])\<rparr>"
    by (simp add: fun_upd_idem)
  from writingI [OF o(1) u this, of "[]" "[]"] o(2) show ?thesis by simp
qed






subsection \<open>The two-pass encoding of Header-1\<close>






subsection \<open>Runs of decrypt\<close>

text \<open>A run of decrypt that got as far as the read loop, in terms of what the AEAD
  produces for the rest of the input.\<close>

lemma decrypt_run:
  assumes opened: "open_outfile fs p ow = Inr (outfile, fs1)"
      and before: "decrypt_before_payload lib cfg rng fs1 spk_f dsk_f pass data_fname p
                   = Next (aead, h, input)"
      and run: "run = checkSignThenDecrypt_RSA1 lib cfg rng fs spk_f dsk_f pass data_fname p ow"
  shows "case aead_stream lib (buffer_size cfg) aead input of
           None \<Rightarrow> run = None
         | Some (Inl x) \<Rightarrow>
             run = Some (Inl (Caught_exception x), fs1\<lparr>files := (files fs1)(p := None)\<rparr>)
         | Some (Inr out) \<Rightarrow>
             run = Some (Inr h, fs1\<lparr>files := (files fs1)(p \<mapsto> take (capacity fs1) out)\<rparr>)
             \<or> (capacity fs1 < length out
                \<and> run = Some (Inl Output_file_write_failed, fs1\<lparr>files := (files fs1)(p := None)\<rparr>))"
proof -
  from opened before
  have "run = map_option (close_outfile p) (map_option (catch_all p) (map_option (after_read p h)
            (read_stream (buffer_size cfg) input (consume_data lib) 0 (aead, outfile, fs1))))"
    by (simp add: run checkSignThenDecrypt_RSA1_def before_loop_def decrypt_payload_def)
  from payload_loop [OF open_outfile_writing [OF opened] this] show ?thesis
    by (simp split: option.splits sum.splits)
qed

text \<open>The same when the file system has room for what the AEAD produces.\<close>

lemma decrypt_run_room:
  assumes opened: "open_outfile fs p ow = Inr (outfile, fs1)"
      and before: "decrypt_before_payload lib cfg rng fs1 spk_f dsk_f pass data_fname p
                   = Next (aead, h, input)"
      and room: "case aead_stream lib (buffer_size cfg) aead input of
                   Some (Inr out) \<Rightarrow> length out \<le> capacity fs1 | _ \<Rightarrow> True"
  shows "checkSignThenDecrypt_RSA1 lib cfg rng fs spk_f dsk_f pass data_fname p ow
         = (case aead_stream lib (buffer_size cfg) aead input of
              None \<Rightarrow> None
            | Some (Inl x) \<Rightarrow> Some (Inl (Caught_exception x), fs1\<lparr>files := (files fs1)(p := None)\<rparr>)
            | Some (Inr out) \<Rightarrow> Some (Inr h, fs1\<lparr>files := (files fs1)(p \<mapsto> out)\<rparr>))"
  using decrypt_run [OF opened before refl] room
  by (auto split: option.splits sum.splits)


lemma decrypt_setup_keyed:
  assumes "aead_create lib cipher_algo True = Some aead0"
      and "decrypt_or_random lib dsk (eme_name cfg) (h_encrypted_key h) (maximum_keylength lib aead0) rng
           = Inr (file_key, rng')"
  shows "decrypt_setup lib cfg dsk rng cipher_algo h fs
         = call fs (aead_keyed lib aead0 file_key (h_encrypted_key h) (h_nonce h))"
  using assms
  by (simp add: decrypt_setup_def aead_create_or_throw_def aead_keyed_def and_then_def call_def
        Let_def split: sum.splits)


lemma toy_snoop: "decrypt_snoop toy toy_cfg (toy_fs_opened msg_genuine) [4] [5] = Next 35"
  by (simp add: decrypt_snoop_def open_input_def toy_input step_defs
        toy_defs msg_genuine_def toy_fields_unfold get_uint32_def)

lemma toy_headers:
  "decrypt_headers toy toy_cfg [9] 35 (toy_fs_opened msg_genuine) [4] [5]
   = Next (toy_header, [11, 21, 31, 41, 51, 166])"
  by (simp add: decrypt_headers_def open_input_def toy_input step_defs Let_def
        toy_defs msg_genuine_def toy_fields_unfold toy_header_def)

lemma toy_validate: "decrypt_validate toy toy_cfg toy_header fs [5] = Next [67]"
  by (simp add: decrypt_validate_def step_defs Let_def padding_combo_def
        toy_defs toy_header_def toy_fields_unfold)

subsection \<open>A message handed to the AEAD in chunks\<close>



subsection \<open>The toy AEAD\<close>



lemma toy_removed:
  "(toy_fs_opened msg)\<lparr>files := (files (toy_fs_opened msg))([5] := None)\<rparr> = toy_fs_with msg"
  by (simp add: toy_fs_opened_def toy_fs_with_def toy_fs_def fun_upd_twist)

subsection \<open>A wrapped key that does not unwrap\<close>

text \<open>
  C5, as the claim states it: in every run of decrypt in which the unwrap of
  \<^verbatim>\<open>encrypted_key\<close> fails, the failure surfaces at the tag verification, as the tag
  mismatch, and not as an error of the unwrap. The toy encrypt writes \<open>msg_three\<close> for
  the plaintext of three bytes. Decrypt with another private key (that of path 2): the
  unwrap returns no key, the run goes on with the random key, and it returns \<^verbatim>\<open>false\<close>
  with the exception \<open>Internal_Error\<close> of \<^verbatim>\<open>finish\<close>, which is not the exception of a
  rejected tag: the read loop has handed the four bytes of payload and tag to
  \<^verbatim>\<open>update\<close> and hands an empty final chunk to \<^verbatim>\<open>finish\<close>. And with a library
  whose unwrap throws, decrypt of \<open>msg_genuine\<close> with that key returns \<^verbatim>\<open>false\<close> with
  the exception of the unwrap.
\<close>

theorem unwrap_failure_counterexample:
  "output_of (encryptThenSign_RSA1 toy toy_cfg 0 toy_fs [1] [2] [] [6] [4] False) [4] = Some msg_three
   \<and> pk_decrypt toy [9] (eme_name toy_cfg) [7, 0, 1] = Inr None
   \<and> error_of (checkSignThenDecrypt_RSA1 toy toy_cfg 5 (toy_fs_with msg_three) [2] [2] [] [4] [5] False)
     = Some (Caught_exception Internal_Error)
   \<and> Internal_Error \<noteq> Invalid_Authentication_Tag
   \<and> error_of (checkSignThenDecrypt_RSA1 toy_strict toy_cfg 5 (toy_fs_with msg_genuine)
        [2] [2] [] [4] [5] False)
     = Some (Caught_exception Invalid_Argument)"
proof -
  have a: "output_of (encryptThenSign_RSA1 toy toy_cfg 0 toy_fs [1] [2] [] [6] [4] False) [4]
           = Some msg_three"
    by (simp add: encrypt_defs step_defs io_defs toy_defs output_of_def msg_three_def Let_def
        read_stream.simps upt_rec)
  have b: "pk_decrypt toy [9] (eme_name toy_cfg) [7, 0, 1] = Inr None"
    by (simp add: toy_def)
  have c: "error_of (checkSignThenDecrypt_RSA1 toy toy_cfg 5 (toy_fs_with msg_three)
             [2] [2] [] [4] [5] False) = Some (Caught_exception Internal_Error)"
    by (simp add: decrypt_defs step_defs io_defs toy_defs toy_fs_with_def error_of_def
        msg_three_def Let_def toy_fields_unfold read_stream.simps upt_rec)
  have d: "error_of (checkSignThenDecrypt_RSA1 toy_strict toy_cfg 5 (toy_fs_with msg_genuine)
             [2] [2] [] [4] [5] False) = Some (Caught_exception Invalid_Argument)"
    by (simp add: decrypt_defs step_defs io_defs toy_defs toy_strict_def toy_fs_with_def error_of_def
        msg_genuine_def Let_def toy_fields_unfold upt_rec)
  from a b c d show ?thesis by simp
qed

text \<open>
  C5, amended. In a run of decrypt that has verified and checked the header:

  \<^item> an exception thrown by the unwrap of \<^verbatim>\<open>encrypted_key\<close> is caught by the outer
    handler, and the run returns \<^verbatim>\<open>false\<close> with that exception, the output removed;
  \<^item> when the unwrap returns no key, or a key of another length than the maximum key
    length of the AEAD, \<^verbatim>\<open>decrypt_or_random\<close> returns the bytes the random number
    generator gives for that length; the AEAD is keyed with them (associated data and
    nonce from the header), and the result of the run is the result of the AEAD on the
    payload: an exception of the AEAD, such as that of a rejected tag, is returned
    through the outer handler with the output removed. No return of the operation is
    specific to the unwrap.
\<close>

theorem unwrap_failure_runs_on_random_key:
  assumes opened: "open_outfile fs outfilename overwrite = Inr (outfile, fs1)"
      and keys: "decrypt_load_keys lib fs1 sign_pub_key_fname dec_sec_key_fname passphrase
                 = Next (sign_pub_key, dec_sec_key)"
      and snoop: "decrypt_snoop lib cfg fs1 data_fname outfilename = Next header1_size"
      and headers: "decrypt_headers lib cfg sign_pub_key header1_size fs1 data_fname outfilename
                    = Next (h, input)"
      and valid: "decrypt_validate lib cfg h fs1 outfilename = Next cipher_algo"
      and created: "aead_create lib cipher_algo True = Some aead0"
      and run: "run = checkSignThenDecrypt_RSA1 lib cfg rng fs sign_pub_key_fname dec_sec_key_fname
                        passphrase data_fname outfilename overwrite"
      and random: "random_key = fst (random_vec lib rng (maximum_keylength lib aead0))"
  shows "(\<forall>x. pk_decrypt lib dec_sec_key (eme_name cfg) (h_encrypted_key h) = Inl x
            \<longrightarrow> run = Some (Inl (Caught_exception x), fs1\<lparr>files := (files fs1)(outfilename := None)\<rparr>))
       \<and> (\<forall>unwrapped aead.
            pk_decrypt lib dec_sec_key (eme_name cfg) (h_encrypted_key h) = Inr unwrapped
          \<and> (case unwrapped of None \<Rightarrow> True | Some key \<Rightarrow> length key \<noteq> maximum_keylength lib aead0)
          \<and> aead_keyed lib aead0 random_key (h_encrypted_key h) (h_nonce h) = Inr aead
          \<and> (case aead_stream lib (buffer_size cfg) aead input of
                Some (Inr out) \<Rightarrow> length out \<le> capacity fs1 | _ \<Rightarrow> True)
          \<longrightarrow> decrypt_or_random lib dec_sec_key (eme_name cfg) (h_encrypted_key h)
                 (maximum_keylength lib aead0) rng
               = Inr (random_vec lib rng (maximum_keylength lib aead0))
            \<and> run = (case aead_stream lib (buffer_size cfg) aead input of
                       None \<Rightarrow> None
                     | Some (Inl x) \<Rightarrow>
                         Some (Inl (Caught_exception x),
                               fs1\<lparr>files := (files fs1)(outfilename := None)\<rparr>)
                     | Some (Inr out) \<Rightarrow>
                         Some (Inr h, fs1\<lparr>files := (files fs1)(outfilename \<mapsto> out)\<rparr>)))"
proof -
  let ?before = "decrypt_before_payload lib cfg rng fs1 sign_pub_key_fname dec_sec_key_fname
                   passphrase data_fname outfilename"
  let ?unwrap = "pk_decrypt lib dec_sec_key (eme_name cfg) (h_encrypted_key h)"
  let ?n = "maximum_keylength lib aead0"
  have before: "?before = and_then (decrypt_setup lib cfg dec_sec_key rng cipher_algo h fs1)
                            (\<lambda>aead. Next (aead, h, input))"
    using keys snoop headers valid by (simp add: decrypt_before_payload_def and_then_def)
  have thrown: "run = Some (Inl (Caught_exception x), fs1\<lparr>files := (files fs1)(outfilename := None)\<rparr>)"
    if "?unwrap = Inl x" for x
  proof -
    from that have "decrypt_or_random lib dec_sec_key (eme_name cfg) (h_encrypted_key h) ?n rng = Inl x"
      by (simp add: decrypt_or_random_def split: prod.splits)
    with created have "decrypt_setup lib cfg dec_sec_key rng cipher_algo h fs1 = Throw x fs1"
      by (simp add: decrypt_setup_def aead_create_or_throw_def and_then_def call_def Let_def)
    with before have "?before = Throw x fs1" by (simp add: and_then_def)
    from decrypt_result_of_failure(2) [OF opened refl this]
      writing_removed [OF open_outfile_writing [OF opened]]
    show ?thesis by (simp add: run)
  qed
  have proceeds: "decrypt_or_random lib dec_sec_key (eme_name cfg) (h_encrypted_key h) ?n rng
               = Inr (random_vec lib rng ?n)
            \<and> run = (case aead_stream lib (buffer_size cfg) aead input of
                       None \<Rightarrow> None
                     | Some (Inl x) \<Rightarrow>
                         Some (Inl (Caught_exception x),
                               fs1\<lparr>files := (files fs1)(outfilename := None)\<rparr>)
                     | Some (Inr out) \<Rightarrow>
                         Some (Inr h, fs1\<lparr>files := (files fs1)(outfilename \<mapsto> out)\<rparr>))"
    if a: "?unwrap = Inr unwrapped
          \<and> (case unwrapped of None \<Rightarrow> True | Some key \<Rightarrow> length key \<noteq> ?n)
          \<and> aead_keyed lib aead0 random_key (h_encrypted_key h) (h_nonce h) = Inr aead
          \<and> (case aead_stream lib (buffer_size cfg) aead input of
                Some (Inr out) \<Rightarrow> length out \<le> capacity fs1 | _ \<Rightarrow> True)"
    for unwrapped aead
  proof -
    from a have dor: "decrypt_or_random lib dec_sec_key (eme_name cfg) (h_encrypted_key h) ?n rng
                      = Inr (random_vec lib rng ?n)"
      by (auto simp: decrypt_or_random_def split: prod.splits option.splits)
    obtain rng' where r: "random_vec lib rng ?n = (random_key, rng')"
      using random by (cases "random_vec lib rng ?n") simp
    from decrypt_setup_keyed [OF created dor [unfolded r]] a
    have "decrypt_setup lib cfg dec_sec_key rng cipher_algo h fs1 = Next aead"
      by (simp add: call_def)
    with before have "?before = Next (aead, h, input)" by (simp add: and_then_def)
    from decrypt_run_room [OF opened this] a dor show ?thesis by (simp add: run)
  qed
  from thrown proceeds show ?thesis by blast
qed

theorem unwrap_failure_runs_on_random_key_witness:
  "checkSignThenDecrypt_RSA1 toy toy_cfg 5 (toy_fs_with msg_genuine) [2] [2] [] [4] [5] False
   = Some (Inl (Caught_exception Invalid_Authentication_Tag), toy_fs_with msg_genuine)
   \<and> checkSignThenDecrypt_RSA1 toy_strict toy_cfg 5 (toy_fs_with msg_genuine) [2] [2] [] [4] [5] False
   = Some (Inl (Caught_exception Invalid_Argument), toy_fs_with msg_genuine)"
proof -
  let ?payload = "[11, 21, 31, 41, 51, 166] :: bytes"
  have keys: "decrypt_load_keys toy (toy_fs_opened msg_genuine) [2] [2] [] = Next ([9], [9])"
    by (simp add: decrypt_load_keys_def io_defs toy_fs_def toy_def toy_fs_opened_def)
  have created: "aead_create toy [67] True = Some (toy_dec [] [] [])"
    by (simp add: toy_def toy_dec_def)
  have unwrap: "pk_decrypt toy [9] (eme_name toy_cfg) (h_encrypted_key toy_header) = Inr None"
    by (simp add: toy_def toy_header_def)
  have keyed: "aead_keyed toy (toy_dec [] [] [])
                 (fst (random_vec toy 5 (maximum_keylength toy (toy_dec [] [] []))))
                 (h_encrypted_key toy_header) (h_nonce toy_header)
               = Inr (toy_dec [5, 6] [7, 0, 1] [2])"
    by (simp add: aead_keyed_def toy_def toy_dec_def toy_header_def upt_rec)
  have tag: "aead_stream toy (buffer_size toy_cfg) (toy_dec [5, 6] [7, 0, 1] [2]) ?payload
             = Some (Inl Invalid_Authentication_Tag)"
    by (simp add: aead_stream_def aead_sink_def read_stream.simps toy_defs toy_dec_def Let_def)
  from unwrap_failure_runs_on_random_key [OF toy_open keys toy_snoop toy_headers toy_validate
         created refl refl, where rng = 5]
    unwrap keyed tag
  have a: "checkSignThenDecrypt_RSA1 toy toy_cfg 5 (toy_fs_with msg_genuine) [2] [2] [] [4] [5] False
           = Some (Inl (Caught_exception Invalid_Authentication_Tag), toy_fs_with msg_genuine)"
    by (simp add: toy_removed)
  have keys': "decrypt_load_keys toy_strict (toy_fs_opened msg_genuine) [2] [2] [] = Next ([9], [9])"
    by (simp add: decrypt_load_keys_def io_defs toy_fs_def toy_def toy_strict_def toy_fs_opened_def)
  have snoop': "decrypt_snoop toy_strict toy_cfg (toy_fs_opened msg_genuine) [4] [5] = Next 35"
    by (simp add: decrypt_snoop_def open_input_def toy_input step_defs
          toy_defs toy_strict_def msg_genuine_def toy_fields_unfold get_uint32_def)
  have headers': "decrypt_headers toy_strict toy_cfg [9] 35 (toy_fs_opened msg_genuine) [4] [5]
                  = Next (toy_header, ?payload)"
    by (simp add: decrypt_headers_def open_input_def toy_input step_defs Let_def
          toy_defs toy_strict_def msg_genuine_def toy_fields_unfold toy_header_def)
  have valid': "decrypt_validate toy_strict toy_cfg toy_header (toy_fs_opened msg_genuine) [5]
                = Next [67]"
    by (simp add: decrypt_validate_def step_defs Let_def padding_combo_def
          toy_defs toy_strict_def toy_header_def toy_fields_unfold)
  have created': "aead_create toy_strict [67] True = Some (toy_dec [] [] [])"
    by (simp add: toy_def toy_strict_def toy_dec_def)
  have unwrap': "pk_decrypt toy_strict [9] (eme_name toy_cfg) (h_encrypted_key toy_header)
                 = Inl Invalid_Argument"
    by (simp add: toy_def toy_strict_def toy_header_def)
  from unwrap_failure_runs_on_random_key [OF toy_open keys' snoop' headers' valid' created' refl refl,
         where rng = 5] unwrap'
  have b: "checkSignThenDecrypt_RSA1 toy_strict toy_cfg 5 (toy_fs_with msg_genuine)
             [2] [2] [] [4] [5] False
           = Some (Inl (Caught_exception Invalid_Argument), toy_fs_with msg_genuine)"
    by (simp add: toy_removed)
  from a b show ?thesis by simp
qed

subsection \<open>The associated data of the AEAD\<close>



subsection \<open>Encrypt, then decrypt\<close>







end
